theory Spec2Isabelle
  imports Complex_Main
begin

section \<open>Tensor elements\<close>

text \<open>
  The program computes on tensors of floating-point numbers.  An element is modelled as a
  real number or one of the three special values of IEEE arithmetic.  Finite results are
  exact (no rounding, no overflow); the special values follow the IEEE rules the tensor
  library relies on: infinities absorb finite numbers, \<open>inf - inf\<close>, \<open>0 * inf\<close>,
  \<open>inf / inf\<close> and \<open>0 / 0\<close> are NaN, and NaN propagates through every operation.
  There is one zero: a division of a nonzero number by zero takes the sign of the dividend.
\<close>

datatype fval = Num real | PosInf | NegInf | NaN

fun fadd :: "fval \<Rightarrow> fval \<Rightarrow> fval" where
  "fadd NaN _ = NaN"
| "fadd _ NaN = NaN"
| "fadd PosInf NegInf = NaN"
| "fadd NegInf PosInf = NaN"
| "fadd PosInf _ = PosInf"
| "fadd _ PosInf = PosInf"
| "fadd NegInf _ = NegInf"
| "fadd _ NegInf = NegInf"
| "fadd (Num a) (Num b) = Num (a + b)"

fun fneg :: "fval \<Rightarrow> fval" where
  "fneg (Num a) = Num (- a)"
| "fneg PosInf = NegInf"
| "fneg NegInf = PosInf"
| "fneg NaN = NaN"

definition fsub :: "fval \<Rightarrow> fval \<Rightarrow> fval" where
  "fsub a b = fadd a (fneg b)"

fun fmul :: "fval \<Rightarrow> fval \<Rightarrow> fval" where
  "fmul NaN _ = NaN"
| "fmul _ NaN = NaN"
| "fmul (Num a) (Num b) = Num (a * b)"
| "fmul (Num a) PosInf = (if 0 < a then PosInf else if a < 0 then NegInf else NaN)"
| "fmul (Num a) NegInf = (if 0 < a then NegInf else if a < 0 then PosInf else NaN)"
| "fmul PosInf (Num b) = (if 0 < b then PosInf else if b < 0 then NegInf else NaN)"
| "fmul NegInf (Num b) = (if 0 < b then NegInf else if b < 0 then PosInf else NaN)"
| "fmul PosInf PosInf = PosInf"
| "fmul PosInf NegInf = NegInf"
| "fmul NegInf PosInf = NegInf"
| "fmul NegInf NegInf = PosInf"

fun fdiv :: "fval \<Rightarrow> fval \<Rightarrow> fval" where
  "fdiv NaN _ = NaN"
| "fdiv _ NaN = NaN"
| "fdiv (Num a) (Num b) =
     (if b \<noteq> 0 then Num (a / b)
      else if 0 < a then PosInf else if a < 0 then NegInf else NaN)"
| "fdiv (Num a) PosInf = Num 0"
| "fdiv (Num a) NegInf = Num 0"
| "fdiv PosInf (Num b) = (if 0 \<le> b then PosInf else NegInf)"
| "fdiv NegInf (Num b) = (if 0 \<le> b then NegInf else PosInf)"
| "fdiv PosInf PosInf = NaN"
| "fdiv PosInf NegInf = NaN"
| "fdiv NegInf PosInf = NaN"
| "fdiv NegInf NegInf = NaN"

fun fexp :: "fval \<Rightarrow> fval" where
  "fexp (Num a) = Num (exp a)"
| "fexp PosInf = PosInf"
| "fexp NegInf = Num 0"
| "fexp NaN = NaN"

fun fsqrt :: "fval \<Rightarrow> fval" where
  "fsqrt (Num a) = (if a < 0 then NaN else Num (sqrt a))"
| "fsqrt PosInf = PosInf"
| "fsqrt NegInf = NaN"
| "fsqrt NaN = NaN"

text \<open>Comparison \<open>a > b\<close>: false as soon as one side is NaN.\<close>

fun fgt :: "fval \<Rightarrow> fval \<Rightarrow> bool" where
  "fgt NaN _ = False"
| "fgt _ NaN = False"
| "fgt (Num a) (Num b) = (b < a)"
| "fgt PosInf PosInf = False"
| "fgt PosInf _ = True"
| "fgt _ PosInf = False"
| "fgt NegInf _ = False"
| "fgt _ NegInf = True"

text \<open>The maximum used by reductions: NaN if one argument is NaN.\<close>

definition fmax :: "fval \<Rightarrow> fval \<Rightarrow> fval" where
  "fmax a b = (if a = NaN \<or> b = NaN then NaN else if fgt b a then b else a)"

definition fsum :: "fval list \<Rightarrow> fval" where
  "fsum xs = foldr fadd xs (Num 0)"

definition fmax_list :: "fval list \<Rightarrow> fval" where
  "fmax_list xs = foldr fmax xs NegInf"

definition dot :: "fval list \<Rightarrow> fval list \<Rightarrow> fval" where
  "dot xs ys = fsum (map2 fmul xs ys)"

fun is_num :: "fval \<Rightarrow> bool" where
  "is_num (Num _) = True"
| "is_num _ = False"

fun the_num :: "fval \<Rightarrow> real" where
  "the_num (Num a) = a"
| "the_num _ = 0"

type_synonym vec = "fval list"
type_synonym mat = "fval list list"
type_synonym tensor3 = "fval list list list"

section \<open>Library layers used by the model\<close>

datatype error = AssertionError | AttributeError | IndexError | KeyError
  | ZeroDivisionError | ValueError | RuntimeError | FileNotFoundError

text \<open>
  Every \<open>nn.Module\<close> carries the flag \<open>training\<close>, set by its constructor and
  switched by \<open>train()\<close> and \<open>eval()\<close>.  Modules whose behaviour or children depend
  on it are modelled with the flag.
\<close>

record nn_module =
  training :: bool

text \<open>
  \<open>nn.Linear\<close>: \<open>weight\<close> has one row per output feature; \<open>bias\<close> is \<open>None\<close> for
  \<open>bias=False\<close>.  Applied to one row vector \<open>x\<close> it yields \<open>x W\<^sup>T + b\<close>.
\<close>

record linear =
  weight :: mat
  bias :: "vec option"

definition linear_apply :: "linear \<Rightarrow> vec \<Rightarrow> vec" where
  "linear_apply l x =
     (case bias l of
        None \<Rightarrow> map (\<lambda>w. dot x w) (weight l)
      | Some b \<Rightarrow> map2 (\<lambda>w c. fadd (dot x w) c) (weight l) b)"

text \<open>
  \<open>F.leaky_relu(x, slope)\<close>: the element itself where it is positive, \<open>x * slope\<close>
  elsewhere (also for NaN, where the comparison is false).
\<close>

definition leaky_relu :: "real \<Rightarrow> fval \<Rightarrow> fval" where
  "leaky_relu slope v = (if fgt v (Num 0) then v else fmul v (Num slope))"

text \<open>
  \<open>F.softmax\<close> along one axis, as the library computes it: the maximum of the slice is
  subtracted before exponentiation, and each exponential is divided by their sum.
\<close>

definition softmax :: "vec \<Rightarrow> vec" where
  "softmax xs =
     (let m = fmax_list xs;
          es = map (\<lambda>v. fexp (fsub v m)) xs;
          s = fsum es
      in map (\<lambda>e. fdiv e s) es)"

text \<open>
  Dropout on one element: in training mode the element is multiplied by a Bernoulli
  sample scaled by \<open>1 / (1 - p)\<close>; outside training it is returned as it is.  The
  sample (\<open>keep\<close>) is an input of the model.
\<close>

definition F_dropout :: "real \<Rightarrow> bool \<Rightarrow> bool \<Rightarrow> fval \<Rightarrow> fval" where
  "F_dropout p train keep v =
     (if train then fmul v (Num (if keep \<and> p < 1 then 1 / (1 - p) else 0)) else v)"

text \<open>
  \<open>nn.GELU()\<close>: \<open>x * \<Phi>(x)\<close> with \<open>\<Phi>\<close> the standard normal distribution function,
  \<open>\<Phi>(x) = (1 + erf (x / sqrt 2)) / 2\<close>.  The error function is given by its
  Maclaurin series.
\<close>

definition erf :: "real \<Rightarrow> real" where
  "erf x = 2 / sqrt pi * (\<Sum>n. (- 1) ^ n * x ^ (2 * n + 1) / (fact n * real (2 * n + 1)))"

fun ferf :: "fval \<Rightarrow> fval" where
  "ferf (Num a) = Num (erf a)"
| "ferf PosInf = Num 1"
| "ferf NegInf = Num (- 1)"
| "ferf NaN = NaN"

definition gelu :: "fval \<Rightarrow> fval" where
  "gelu v = fmul v (fdiv (fadd (Num 1) (ferf (fdiv v (Num (sqrt 2))))) (Num 2))"

text \<open>\<open>nn.ReLU\<close> and \<open>torch.sigmoid\<close> on one element.\<close>

definition relu :: "fval \<Rightarrow> fval" where
  "relu v = (if v = NaN then NaN else if fgt v (Num 0) then v else Num 0)"

fun fsigmoid :: "fval \<Rightarrow> fval" where
  "fsigmoid (Num a) = Num (1 / (1 + exp (- a)))"
| "fsigmoid PosInf = Num 1"
| "fsigmoid NegInf = Num 0"
| "fsigmoid NaN = NaN"

text \<open>
  \<open>F.normalize(x, p=2, dim=1)\<close>: every row is divided by its Euclidean norm, clamped
  from below by \<open>eps = 1e-12\<close>.
\<close>

definition norm2 :: "vec \<Rightarrow> fval" where
  "norm2 v = fsqrt (fsum (map (\<lambda>a. fmul a a) v))"

definition F_normalize :: "mat \<Rightarrow> mat" where
  "F_normalize x =
     map (\<lambda>row. let d = fmax (norm2 row) (Num (1 / 10 ^ 12)) in map (\<lambda>a. fdiv a d) row) x"

text \<open>
  \<open>F.cosine_similarity(x1, x2, eps=1e-8)\<close> of two vectors.  Releases of the library
  differ in where they clamp: the older ones divide the dot product by
  \<open>sqrt (max (|x1|\<^sup>2 |x2|\<^sup>2) (eps\<^sup>2))\<close>, the newer ones divide each vector by its norm
  clamped at \<open>eps\<close> before the dot product.  Both are modelled.
\<close>

datatype cos_impl = ClampProduct | ClampEach

definition cosine_similarity :: "cos_impl \<Rightarrow> vec \<Rightarrow> vec \<Rightarrow> fval" where
  "cosine_similarity impl x1 x2 =
     (case impl of
        ClampProduct \<Rightarrow>
          fdiv (dot x1 x2)
            (fsqrt (fmax (fmul (dot x1 x1) (dot x2 x2)) (Num ((1 / 10 ^ 8) * (1 / 10 ^ 8)))))
      | ClampEach \<Rightarrow>
          (let n1 = fmax (norm2 x1) (Num (1 / 10 ^ 8));
               n2 = fmax (norm2 x2) (Num (1 / 10 ^ 8))
           in fsum (map2 (\<lambda>a b. fmul (fdiv a n1) (fdiv b n2)) x1 x2)))"

text \<open>Mean and biased variance of a slice, and the affine normalisation shared by
  \<open>nn.BatchNorm1d\<close> and \<open>nn.LayerNorm\<close>.\<close>

definition fmean :: "vec \<Rightarrow> fval" where
  "fmean xs = fdiv (fsum xs) (Num (real (length xs)))"

definition fvar :: "vec \<Rightarrow> fval" where
  "fvar xs = (let m = fmean xs in fmean (map (\<lambda>a. fmul (fsub a m) (fsub a m)) xs))"

definition normalise_elem :: "real \<Rightarrow> fval \<Rightarrow> fval \<Rightarrow> fval \<Rightarrow> fval \<Rightarrow> fval \<Rightarrow> fval" where
  "normalise_elem eps mean var w b a =
     fadd (fmul (fdiv (fsub a mean) (fsqrt (fadd var (Num eps)))) w) b"

definition column :: "mat \<Rightarrow> nat \<Rightarrow> vec" where
  "column x c = map (\<lambda>row. row ! c) x"

text \<open>
  \<open>nn.BatchNorm1d\<close> on a [B, C] input.  In training mode it normalises with the
  statistics of the batch (a batch of one value per channel is refused) and moves its
  running statistics towards them, the variance with Bessel's correction; outside
  training it normalises with the running statistics and changes nothing.
\<close>

record batch_norm = nn_module +
  bn_eps :: real
  momentum :: real
  bn_weight :: vec
  bn_bias :: vec
  running_mean :: vec
  running_var :: vec

definition BatchNorm1d_forward :: "batch_norm \<Rightarrow> mat \<Rightarrow> (error + mat) \<times> batch_norm" where
  "BatchNorm1d_forward bn x =
     (let B = length x; C = length (bn_weight bn)
      in if training bn then
           (if B = 1 then (Inl ValueError, bn)
            else
              let means = map (\<lambda>c. fmean (column x c)) [0..<C];
                  vars = map (\<lambda>c. fvar (column x c)) [0..<C];
                  y = map (\<lambda>row. map (\<lambda>c.
                        normalise_elem (bn_eps bn) (means ! c) (vars ! c)
                          (bn_weight bn ! c) (bn_bias bn ! c) (row ! c)) [0..<C]) x;
                  unbias = Num (real B / (real B - 1));
                  keep = Num (1 - momentum bn); mom = Num (momentum bn)
              in (Inr y,
                  bn\<lparr> running_mean :=
                        map2 (\<lambda>r m. fadd (fmul keep r) (fmul mom m)) (running_mean bn) means,
                      running_var :=
                        map2 (\<lambda>r v. fadd (fmul keep r) (fmul mom (fmul v unbias)))
                          (running_var bn) vars \<rparr>))
         else
           (Inr (map (\<lambda>row. map (\<lambda>c.
                   normalise_elem (bn_eps bn) (running_mean bn ! c) (running_var bn ! c)
                     (bn_weight bn ! c) (bn_bias bn ! c) (row ! c)) [0..<C]) x),
            bn))"

text \<open>A fresh \<open>nn.BatchNorm1d(n)\<close>: unit weight, zero bias, running mean 0 and variance 1.\<close>

definition BatchNorm1d_init :: "int \<Rightarrow> batch_norm" where
  "BatchNorm1d_init n =
     \<lparr> training = True, bn_eps = 1 / 10 ^ 5, momentum = 1 / 10,
       bn_weight = replicate (nat n) (Num 1), bn_bias = replicate (nat n) (Num 0),
       running_mean = replicate (nat n) (Num 0), running_var = replicate (nat n) (Num 1) \<rparr>"

text \<open>\<open>nn.LayerNorm\<close> over the last dimension of a [N, d] input.\<close>

record layer_norm = nn_module +
  ln_eps :: real
  ln_weight :: vec
  ln_bias :: vec

definition LayerNorm_forward :: "layer_norm \<Rightarrow> mat \<Rightarrow> mat" where
  "LayerNorm_forward lnm x =
     map (\<lambda>row. let m = fmean row; v = fvar row
                in map (\<lambda>c. normalise_elem (ln_eps lnm) m v (ln_weight lnm ! c) (ln_bias lnm ! c)
                              (row ! c)) [0..<length row]) x"

definition LayerNorm_init :: "int \<Rightarrow> layer_norm" where
  "LayerNorm_init n =
     \<lparr> training = True, ln_eps = 1 / 10 ^ 5,
       ln_weight = replicate (nat n) (Num 1), ln_bias = replicate (nat n) (Num 0) \<rparr>"

text \<open>\<open>nn.Dropout(p)\<close> as a module with its own training flag, on a [N, d] input.\<close>

record dropout_module = nn_module +
  drop_p :: real

definition Dropout_forward :: "dropout_module \<Rightarrow> (nat \<Rightarrow> nat \<Rightarrow> bool) \<Rightarrow> mat \<Rightarrow> mat" where
  "Dropout_forward d keep x =
     map (\<lambda>i. map (\<lambda>c. F_dropout (drop_p d) (training d) (keep i c) (x ! i ! c))
            [0..<length (x ! i)]) [0..<length x]"

text \<open>
  \<open>tensor.nonzero().t()\<close> of a matrix: the index pairs of its entries different from
  zero, in row-major order (NaN is different from zero).
\<close>

definition nonzero :: "mat \<Rightarrow> (nat \<times> nat) list" where
  "nonzero a =
     concat (map (\<lambda>i. map (\<lambda>j. (i, j)) (filter (\<lambda>j. a ! i ! j \<noteq> Num 0) [0..<length (a ! i)]))
               [0..<length a])"

text \<open>
  \<open>GCNConv\<close> of torch_geometric with its defaults, on an edge list without weights:
  self-loops are replaced by one loop of weight 1 per node, the degree of a node counts
  the edges that end in it, an edge from \<open>r\<close> to \<open>c\<close> is weighted
  \<open>deg(r)\<^sup>-\<^sup>1\<^sup>/\<^sup>2 deg(c)\<^sup>-\<^sup>1\<^sup>/\<^sup>2\<close> (0 for an infinite inverse), and node \<open>c\<close> receives the weighted
  sum of the linearly transformed features of the sources of its edges, plus the bias.
\<close>

record gcn_conv =
  lin_weight :: mat
  conv_bias :: vec

definition gcn_edges :: "nat \<Rightarrow> (nat \<times> nat) list \<Rightarrow> (nat \<times> nat) list" where
  "gcn_edges N edge_index = filter (\<lambda>(r, c). r \<noteq> c) edge_index @ map (\<lambda>i. (i, i)) [0..<N]"

definition deg_inv_sqrt :: "(nat \<times> nat) list \<Rightarrow> nat \<Rightarrow> real" where
  "deg_inv_sqrt es c =
     (let d = real (length (filter (\<lambda>(r, c'). c' = c) es))
      in if d = 0 then 0 else 1 / sqrt d)"

definition GCNConv_forward :: "gcn_conv \<Rightarrow> mat \<Rightarrow> (nat \<times> nat) list \<Rightarrow> mat" where
  "GCNConv_forward g x edge_index =
     (let N = length x;
          es = gcn_edges N edge_index;
          xl = map (linear_apply \<lparr> weight = lin_weight g, bias = None \<rparr>) x
      in map (\<lambda>i.
           map2 fadd
             (map (\<lambda>f. fsum (map (\<lambda>(r, c).
                     fmul (Num (deg_inv_sqrt es r * deg_inv_sqrt es c)) (xl ! r ! f))
                   (filter (\<lambda>(r, c). c = i) es)))
                [0..<length (lin_weight g)])
             (conv_bias g))
         [0..<N])"

section \<open>WeightedMultiHeadGAT\<close>

text \<open>
  The layer object.  An attribute that \<open>__init__\<close> assigns only under a condition is an
  option: \<open>None\<close> means that the object has no such attribute (reading it raises
  \<open>AttributeError\<close>), \<open>Some l\<close> that it holds the module \<open>l\<close>.
\<close>

record gat_layer = nn_module +
  heads :: int
  alpha :: real
  dropout :: real
  residual :: bool
  use_edge_weights :: bool
  out_features_per_head :: int
  W :: linear
  head_fusion :: linear
  edge_encoder :: "linear option"
  attn_src :: mat
  attn_dst :: mat
  res_fc :: "linear option"

text \<open>
  The values the parameters are initialised with (the random draws of \<open>nn.Linear\<close> and
  \<open>xavier_uniform_\<close>) are an input of the constructor.  The constructor fails where the
  source does: the remainder by zero heads, the divisibility assertion, a negative size
  given to the tensor library (first in \<open>self.W\<close>, later in the edge encoder and the
  attention vectors) and a dropout rate outside [0, 1] given to \<open>nn.Dropout\<close>.
\<close>

record gat_params =
  W_weight :: mat
  fusion_weight :: mat
  fusion_bias :: vec
  edge_weight :: mat
  edge_bias :: vec
  src_init :: mat
  dst_init :: mat
  res_weight :: mat
  res_bias :: vec

definition WeightedMultiHeadGAT_init ::
  "int \<Rightarrow> int \<Rightarrow> int \<Rightarrow> int \<Rightarrow> real \<Rightarrow> real \<Rightarrow> bool \<Rightarrow> bool \<Rightarrow> gat_params
     \<Rightarrow> error + gat_layer" where
  "WeightedMultiHeadGAT_init in_features out_features hds edge_dim p_drop alph resid use_ew ps =
     (if hds = 0 then Inl ZeroDivisionError
      else if out_features mod hds \<noteq> 0 then Inl AssertionError
      else if in_features < 0 \<or> out_features < 0 then Inl RuntimeError
      else if p_drop < 0 \<or> 1 < p_drop then Inl ValueError
      else if (use_ew \<and> edge_dim < 0) \<or> hds < 0 then Inl RuntimeError
      else Inr \<lparr> training = True, heads = hds, alpha = alph, dropout = p_drop, residual = resid,
                 use_edge_weights = use_ew,
                 out_features_per_head = out_features div hds,
                 W = \<lparr> weight = W_weight ps, bias = None \<rparr>,
                 head_fusion = \<lparr> weight = fusion_weight ps, bias = Some (fusion_bias ps) \<rparr>,
                 edge_encoder =
                   (if use_ew then Some \<lparr> weight = edge_weight ps, bias = Some (edge_bias ps) \<rparr>
                    else None),
                 attn_src = src_init ps, attn_dst = dst_init ps,
                 res_fc =
                   (if resid then Some \<lparr> weight = res_weight ps, bias = Some (res_bias ps) \<rparr>
                    else None) \<rparr>)"

text \<open>Reading \<open>self.res_fc\<close>.\<close>

definition get_res_fc :: "gat_layer \<Rightarrow> error + linear" where
  "get_res_fc l = (case res_fc l of None \<Rightarrow> Inl AttributeError | Some m \<Rightarrow> Inr m)"

text \<open>The two checks of the module's self-test: \<open>hasattr(layer.res_fc, 'weight')\<close> and
  \<open>layer.res_fc is None\<close>.  A stored module is never \<open>None\<close>.\<close>

definition res_fc_has_weight :: "gat_layer \<Rightarrow> error + bool" where
  "res_fc_has_weight l = (case get_res_fc l of Inl e \<Rightarrow> Inl e | Inr m \<Rightarrow> Inr True)"

definition res_fc_is_None :: "gat_layer \<Rightarrow> error + bool" where
  "res_fc_is_None l = (case get_res_fc l of Inl e \<Rightarrow> Inl e | Inr m \<Rightarrow> Inr False)"

text \<open>The Bernoulli samples of the two dropouts of one forward pass.\<close>

record gat_rng =
  attn_keep :: "nat \<Rightarrow> nat \<Rightarrow> nat \<Rightarrow> bool"
  fusion_keep :: "nat \<Rightarrow> nat \<Rightarrow> bool"

text \<open>\<open>h.view(num_nodes, heads, out_features_per_head)\<close> on one row.\<close>

definition view_heads :: "nat \<Rightarrow> nat \<Rightarrow> vec \<Rightarrow> mat" where
  "view_heads H D row = map (\<lambda>k. take D (drop (k * D) row)) [0..<H]"

text \<open>
  Steps 1 to 3 of \<open>forward\<close>: the projected features \<open>h\<close> of shape [N, H, D] and
  the masked scores of shape [N, N, H].  The scores are computed in the exact, unbounded
  arithmetic of the model: where the program's floats overflow to an infinity the model
  keeps a finite number.  A statement on finite scores is therefore made under the
  condition \<open>scores_in_range\<close> given further below, or concerns masked scores only,
  which are \<open>-inf\<close> whatever the value they replace.
\<close>

definition gat_h :: "gat_layer \<Rightarrow> mat \<Rightarrow> tensor3" where
  "gat_h l x =
     map (\<lambda>row. view_heads (nat (heads l)) (nat (out_features_per_head l))
                  (linear_apply (W l) row)) x"

definition gat_scores :: "gat_layer \<Rightarrow> mat \<Rightarrow> mat \<Rightarrow> tensor3" where
  "gat_scores l x adj =
     (let N = length x; H = nat (heads l);
          h = gat_h l x;
          a_src = map (\<lambda>hn. map2 dot hn (attn_src l)) h;
          a_dst = map (\<lambda>hn. map2 dot hn (attn_dst l)) h
      in map (\<lambda>i. map (\<lambda>j.
            let attn = map (\<lambda>k. fadd (a_src ! i ! k) (a_dst ! j ! k)) [0..<H];
                attn' = (if use_edge_weights l
                         then map2 fadd attn
                                (linear_apply (the (edge_encoder l)) [adj ! i ! j])
                         else attn)
            in if fgt (adj ! i ! j) (Num 0) then attn' else map (\<lambda>_. NegInf) attn')
          [0..<N]) [0..<N])"

text \<open>Step 4 up to the softmax along dimension 1: the normalised attention weights.\<close>

definition gat_attention :: "gat_layer \<Rightarrow> mat \<Rightarrow> mat \<Rightarrow> tensor3" where
  "gat_attention l x adj =
     (let N = length x; H = nat (heads l);
          s = gat_scores l x adj
      in map (\<lambda>i. map (\<lambda>j. map (\<lambda>k.
            softmax (map (\<lambda>j'. leaky_relu (alpha l) (s ! i ! j' ! k)) [0..<N]) ! j)
          [0..<H]) [0..<N]) [0..<N])"

text \<open>The dropout on the attention weights and step 5, the aggregation
  \<open>einsum('ijh,jhd->ihd')\<close> reshaped to [N, H * D].\<close>

definition gat_aggregate :: "gat_layer \<Rightarrow> gat_rng \<Rightarrow> mat \<Rightarrow> mat \<Rightarrow> mat" where
  "gat_aggregate l rng x adj =
     (let N = length x; H = nat (heads l); D = nat (out_features_per_head l);
          h = gat_h l x;
          a = gat_attention l x adj;
          attn = map (\<lambda>i. map (\<lambda>j. map (\<lambda>k.
                   F_dropout (dropout l) (training l) (attn_keep rng i j k) (a ! i ! j ! k))
                 [0..<H]) [0..<N]) [0..<N]
      in map (\<lambda>i. concat (map (\<lambda>k. map (\<lambda>d.
               fsum (map (\<lambda>j. fmul (attn ! i ! j ! k) (h ! j ! k ! d)) [0..<N]))
             [0..<D]) [0..<H])) [0..<N])"

text \<open>The block \<open>head_fusion\<close> (linear layer, GELU, dropout) on row \<open>i\<close>.\<close>

definition fuse_heads :: "gat_layer \<Rightarrow> gat_rng \<Rightarrow> nat \<Rightarrow> vec \<Rightarrow> vec" where
  "fuse_heads l rng i r =
     (let f = map gelu (linear_apply (head_fusion l) r)
      in map (\<lambda>c. F_dropout (dropout l) (training l) (fusion_keep rng i c) (f ! c))
           [0..<length f])"

definition WeightedMultiHeadGAT_forward ::
  "gat_layer \<Rightarrow> gat_rng \<Rightarrow> mat \<Rightarrow> mat \<Rightarrow> error + mat" where
  "WeightedMultiHeadGAT_forward l rng x adj =
     (let h_out = gat_aggregate l rng x adj
      in case get_res_fc l of
           Inl e \<Rightarrow> Inl e
         | Inr fc \<Rightarrow>
             Inr (map (\<lambda>i. fuse_heads l rng i (map2 fadd (h_out ! i) (linear_apply fc (x ! i))))
                    [0..<length x]))"

section \<open>StackedGAT\<close>

record stacked_gat = nn_module +
  layers :: "gat_layer list"

text \<open>The assertion loop over \<open>hidden_dims\<close>.\<close>

fun check_hidden_dims :: "int list \<Rightarrow> int \<Rightarrow> error + unit" where
  "check_hidden_dims [] hds = Inr ()"
| "check_hidden_dims (h_dim # rest) hds =
     (if hds = 0 then Inl ZeroDivisionError
      else if h_dim mod hds \<noteq> 0 then Inl AssertionError
      else check_hidden_dims rest hds)"

text \<open>The construction loop over \<open>zip(dims[:-1], dims[1:])\<close>; the \<open>k\<close>-th layer takes the
  \<open>k\<close>-th parameter draw.  \<open>alpha\<close> and \<open>use_edge_weights\<close> keep their defaults.\<close>

fun build_gat_layers ::
  "(int \<times> int) list \<Rightarrow> int \<Rightarrow> real \<Rightarrow> int \<Rightarrow> bool \<Rightarrow> (nat \<Rightarrow> gat_params) \<Rightarrow> nat
     \<Rightarrow> error + gat_layer list" where
  "build_gat_layers [] hds p_drop edge_dim resid ps k = Inr []"
| "build_gat_layers ((in_dim, out_dim) # rest) hds p_drop edge_dim resid ps k =
     (case WeightedMultiHeadGAT_init in_dim out_dim hds edge_dim p_drop 0.2 resid True (ps k) of
        Inl e \<Rightarrow> Inl e
      | Inr l \<Rightarrow>
          (case build_gat_layers rest hds p_drop edge_dim resid ps (Suc k) of
             Inl e \<Rightarrow> Inl e
           | Inr ls \<Rightarrow> Inr (l # ls)))"

definition StackedGAT_init ::
  "int \<Rightarrow> int list \<Rightarrow> int \<Rightarrow> real \<Rightarrow> int \<Rightarrow> bool \<Rightarrow> (nat \<Rightarrow> gat_params)
     \<Rightarrow> error + stacked_gat" where
  "StackedGAT_init in_features hidden_dims hds p_drop edge_dim resid ps =
     (let dims = in_features # hidden_dims
      in case check_hidden_dims hidden_dims hds of
           Inl e \<Rightarrow> Inl e
         | Inr _ \<Rightarrow>
             (case build_gat_layers (zip (butlast dims) (tl dims)) hds p_drop edge_dim resid ps 0 of
                Inl e \<Rightarrow> Inl e
              | Inr ls \<Rightarrow> Inr \<lparr> training = True, layers = ls \<rparr>))"

fun forward_layers :: "gat_layer list \<Rightarrow> (nat \<Rightarrow> gat_rng) \<Rightarrow> nat \<Rightarrow> mat \<Rightarrow> mat \<Rightarrow> error + mat" where
  "forward_layers [] rng k x adj = Inr x"
| "forward_layers (l # ls) rng k x adj =
     (case WeightedMultiHeadGAT_forward l (rng k) x adj of
        Inl e \<Rightarrow> Inl e
      | Inr y \<Rightarrow> forward_layers ls rng (Suc k) y adj)"

definition StackedGAT_forward :: "stacked_gat \<Rightarrow> (nat \<Rightarrow> gat_rng) \<Rightarrow> mat \<Rightarrow> mat \<Rightarrow> error + mat" where
  "StackedGAT_forward g rng x adj = forward_layers (layers g) rng 0 x adj"

section \<open>MultiScaleFeatureExtractor\<close>

text \<open>
  Feature maps are tensors of shape [B, C, H, W].  The pretrained backbone comes from
  the library: its stem and its four stages are functions of the backbone's weights and
  buffers (\<open>'bs\<close>), of the training flag and of their input; \<open>rn_advance\<close> gives the
  buffers after one pass in training mode (outside training a pass changes none).
  \<open>models\<close> is the library's table of constructors, \<open>interpolate\<close> its bilinear
  resampling of a feature map to the spatial size of another.
\<close>

type_synonym tensor4 = "fval list list list list"

record 'bs resnet =
  rn_state :: 'bs
  rn_stem :: "'bs \<Rightarrow> bool \<Rightarrow> tensor4 \<Rightarrow> tensor4"
  rn_layer1 :: "'bs \<Rightarrow> bool \<Rightarrow> tensor4 \<Rightarrow> tensor4"
  rn_layer2 :: "'bs \<Rightarrow> bool \<Rightarrow> tensor4 \<Rightarrow> tensor4"
  rn_layer3 :: "'bs \<Rightarrow> bool \<Rightarrow> tensor4 \<Rightarrow> tensor4"
  rn_layer4 :: "'bs \<Rightarrow> bool \<Rightarrow> tensor4 \<Rightarrow> tensor4"
  rn_advance :: "'bs \<Rightarrow> tensor4 \<Rightarrow> 'bs"

record 'bs torch_lib =
  models :: "string \<Rightarrow> bool \<Rightarrow> error + 'bs resnet"
  interpolate :: "tensor4 \<Rightarrow> tensor4 \<Rightarrow> tensor4"
  cos_version :: cos_impl

record 'bs feature_extractor = nn_module +
  cnn_type :: string
  output_dims :: int
  layers_to_extract :: "string list"
  bb_state :: 'bs
  initial_layers :: "'bs \<Rightarrow> bool \<Rightarrow> tensor4 \<Rightarrow> tensor4"
  feature_layers :: "(string \<times> ('bs \<Rightarrow> bool \<Rightarrow> tensor4 \<Rightarrow> tensor4)) list"
  bb_advance :: "'bs \<Rightarrow> tensor4 \<Rightarrow> 'bs"
  fuse_linear :: linear
  fuse_bn :: batch_norm

definition channel_map :: "(string \<times> (string \<times> int) list) list" where
  "channel_map =
     [(''resnet50'', [(''layer1'', 256), (''layer2'', 512), (''layer3'', 1024), (''layer4'', 2048)]),
      (''resnet101'', [(''layer1'', 256), (''layer2'', 512), (''layer3'', 1024), (''layer4'', 2048)])]"

fun get_total_channels :: "string \<Rightarrow> string list \<Rightarrow> error + int" where
  "get_total_channels ct [] = Inr 0"
| "get_total_channels ct (layer # rest) =
     (case map_of channel_map ct of
        None \<Rightarrow> Inl KeyError
      | Some m \<Rightarrow>
          (case map_of m layer of
             None \<Rightarrow> Inl KeyError
           | Some c \<Rightarrow>
               (case get_total_channels ct rest of
                  Inl e \<Rightarrow> Inl e
                | Inr t \<Rightarrow> Inr (c + t))))"

definition MultiScaleFeatureExtractor_init ::
  "'bs torch_lib \<Rightarrow> string \<Rightarrow> bool \<Rightarrow> int \<Rightarrow> string list \<Rightarrow> mat \<Rightarrow> vec
     \<Rightarrow> error + 'bs feature_extractor" where
  "MultiScaleFeatureExtractor_init lib ct pretrained out_dims names w0 b0 =
     (case models lib ct pretrained of
        Inl e \<Rightarrow> Inl e
      | Inr bb \<Rightarrow>
          (case get_total_channels ct names of
             Inl e \<Rightarrow> Inl e
           | Inr total_channels \<Rightarrow>
               if out_dims < 0 then Inl RuntimeError
               else Inr \<lparr> training = True, cnn_type = ct, output_dims = out_dims,
                          layers_to_extract = names,
                          bb_state = rn_state bb,
                          initial_layers = rn_stem bb,
                          feature_layers =
                            [(''layer1'', rn_layer1 bb), (''layer2'', rn_layer2 bb),
                             (''layer3'', rn_layer3 bb), (''layer4'', rn_layer4 bb)],
                          bb_advance = rn_advance bb,
                          fuse_linear = \<lparr> weight = w0, bias = Some b0 \<rparr>,
                          fuse_bn = BatchNorm1d_init out_dims \<rparr>))"

text \<open>The loop over \<open>self.feature_layers.items()\<close>.\<close>

fun run_feature_layers ::
  "(string \<times> ('bs \<Rightarrow> bool \<Rightarrow> tensor4 \<Rightarrow> tensor4)) list \<Rightarrow> 'bs \<Rightarrow> bool \<Rightarrow> string list
     \<Rightarrow> tensor4 \<Rightarrow> tensor4 list" where
  "run_feature_layers [] st tr ex cur = []"
| "run_feature_layers ((name, layer) # rest) st tr ex cur =
     (let cur' = layer st tr cur
      in (if name \<in> set ex then [cur'] else []) @ run_feature_layers rest st tr ex cur')"

text \<open>\<open>torch.cat(ts, dim=1)\<close>, and \<open>nn.AdaptiveAvgPool2d(1)\<close> followed by
  \<open>nn.Flatten()\<close>.\<close>

definition cat_channels :: "tensor4 list \<Rightarrow> tensor4" where
  "cat_channels ts = map (\<lambda>b. concat (map (\<lambda>t. t ! b) ts)) [0..<length (hd ts)]"

definition pool_flatten :: "tensor4 \<Rightarrow> mat" where
  "pool_flatten t = map (\<lambda>img. map (\<lambda>ch. fmean (concat ch)) img) t"

text \<open>\<open>forward\<close> up to the fused feature map, and up to \<open>self.fuse(fused)\<close>: the
  fused, pooled, projected, batch-normalised and rectified features, with the module as
  the pass leaves it.\<close>

definition extractor_fused :: "'bs torch_lib \<Rightarrow> 'bs feature_extractor \<Rightarrow> tensor4 \<Rightarrow> error + tensor4" where
  "extractor_fused lib fe x =
     (let x0 = initial_layers fe (bb_state fe) (training fe) x;
          features = run_feature_layers (feature_layers fe) (bb_state fe) (training fe)
                       (layers_to_extract fe) x0
      in if 1 < length features
         then Inr (cat_channels
                     (map (\<lambda>feat. interpolate lib feat (last features)) (butlast features)
                      @ [last features]))
         else (case features of [] \<Rightarrow> Inl IndexError | f # _ \<Rightarrow> Inr f))"

definition extractor_fuse ::
  "'bs torch_lib \<Rightarrow> 'bs feature_extractor \<Rightarrow> tensor4
     \<Rightarrow> (error + mat) \<times> 'bs feature_extractor" where
  "extractor_fuse lib fe x =
     (let fe' = fe\<lparr> bb_state := (if training fe then bb_advance fe (bb_state fe) x
                                   else bb_state fe) \<rparr>
      in case extractor_fused lib fe x of
           Inl e \<Rightarrow> (Inl e, fe')
         | Inr fused \<Rightarrow>
             (case BatchNorm1d_forward (fuse_bn fe)
                     (map (linear_apply (fuse_linear fe)) (pool_flatten fused)) of
                (Inl e, bn') \<Rightarrow> (Inl e, fe'\<lparr> fuse_bn := bn' \<rparr>)
              | (Inr y, bn') \<Rightarrow> (Inr (map (map relu) y), fe'\<lparr> fuse_bn := bn' \<rparr>)))"

definition MultiScaleFeatureExtractor_forward ::
  "'bs torch_lib \<Rightarrow> 'bs feature_extractor \<Rightarrow> tensor4
     \<Rightarrow> (error + mat) \<times> 'bs feature_extractor" where
  "MultiScaleFeatureExtractor_forward lib fe x =
     (case extractor_fuse lib fe x of
        (Inl e, fe') \<Rightarrow> (Inl e, fe')
      | (Inr y, fe') \<Rightarrow> (Inr (F_normalize y), fe'))"

section \<open>GCNClassifier\<close>

datatype gcn_module = GCNConv gcn_conv | ReLU | BatchNorm1d batch_norm

record gcn_classifier = nn_module +
  gcn_layers :: "gcn_module list"

text \<open>The construction loop over \<open>dims\<close>; the \<open>i\<close>-th convolution takes the \<open>i\<close>-th
  parameter draw.  A negative output size is refused by the library.\<close>

fun build_gcn_layers :: "int list \<Rightarrow> (nat \<Rightarrow> gcn_conv) \<Rightarrow> nat \<Rightarrow> error + gcn_module list" where
  "build_gcn_layers (d1 # d2 # rest) ps i =
     (if d2 < 0 then Inl RuntimeError
      else case build_gcn_layers (d2 # rest) ps (Suc i) of
             Inl e \<Rightarrow> Inl e
           | Inr ls \<Rightarrow>
               Inr (GCNConv (ps i)
                    # (if rest \<noteq> [] then [ReLU, BatchNorm1d (BatchNorm1d_init d2)] else [])
                    @ ls))"
| "build_gcn_layers _ ps i = Inr []"

definition GCNClassifier_init ::
  "int \<Rightarrow> int \<Rightarrow> int list \<Rightarrow> (nat \<Rightarrow> gcn_conv) \<Rightarrow> error + gcn_classifier" where
  "GCNClassifier_init in_features num_classes hidden_dims ps =
     (case build_gcn_layers (in_features # hidden_dims @ [num_classes]) ps 0 of
        Inl e \<Rightarrow> Inl e
      | Inr ls \<Rightarrow> Inr \<lparr> training = True, gcn_layers = ls \<rparr>)"

text \<open>The loop of \<open>forward\<close>, dispatching on the class of each layer; the layers are
  returned with the buffers they hold after the pass.\<close>

fun run_gcn_layers ::
  "gcn_module list \<Rightarrow> mat \<Rightarrow> (nat \<times> nat) list \<Rightarrow> (error + mat) \<times> gcn_module list" where
  "run_gcn_layers [] x ei = (Inr x, [])"
| "run_gcn_layers (GCNConv g # rest) x ei =
     (case run_gcn_layers rest (GCNConv_forward g x ei) ei of
        (r, rest') \<Rightarrow> (r, GCNConv g # rest'))"
| "run_gcn_layers (ReLU # rest) x ei =
     (case run_gcn_layers rest (map (map relu) x) ei of
        (r, rest') \<Rightarrow> (r, ReLU # rest'))"
| "run_gcn_layers (BatchNorm1d bn # rest) x ei =
     (case BatchNorm1d_forward bn x of
        (Inl e, bn') \<Rightarrow> (Inl e, BatchNorm1d bn' # rest)
      | (Inr y, bn') \<Rightarrow>
          (case run_gcn_layers rest y ei of
             (r, rest') \<Rightarrow> (r, BatchNorm1d bn' # rest')))"

definition GCNClassifier_forward ::
  "gcn_classifier \<Rightarrow> mat \<Rightarrow> (nat \<times> nat) list \<Rightarrow> (error + mat) \<times> gcn_classifier" where
  "GCNClassifier_forward c x edge_index =
     (case run_gcn_layers (gcn_layers c) x edge_index of
        (Inl e, ls) \<Rightarrow> (Inl e, c\<lparr> gcn_layers := ls \<rparr>)
      | (Inr y, ls) \<Rightarrow> (Inr (map (map fsigmoid) y), c\<lparr> gcn_layers := ls \<rparr>))"

section \<open>FullModel\<close>

record 'bs full_model = nn_module +
  cnn :: "'bs feature_extractor"
  gat :: stacked_gat
  gcn :: gcn_classifier
  fm_dropout :: dropout_module
  gat_norm :: layer_norm

text \<open>The parameter draws of one construction, and the Bernoulli samples of one pass.\<close>

record fm_draws =
  fuse_w :: mat
  fuse_b :: vec
  gat_draws :: "nat \<Rightarrow> gat_params"
  gcn_draws :: "nat \<Rightarrow> gcn_conv"

record fm_rng =
  feat_keep :: "nat \<Rightarrow> nat \<Rightarrow> bool"
  gat_rngs :: "nat \<Rightarrow> gat_rng"
  out_keep :: "nat \<Rightarrow> nat \<Rightarrow> bool"

text \<open>
  \<open>csv_columns\<close> is the number of columns of \<open>data/train_labels.csv\<close>, \<open>None\<close> when
  the file is missing; it is read only when \<open>num_classes\<close> is \<open>None\<close>.
\<close>

definition FullModel_init ::
  "'bs torch_lib \<Rightarrow> nat option \<Rightarrow> int \<Rightarrow> int list \<Rightarrow> int option \<Rightarrow> int \<Rightarrow> real \<Rightarrow> fm_draws
     \<Rightarrow> error + 'bs full_model" where
  "FullModel_init lib csv_columns cnn_feat_dim gat_dims num_classes gat_heads gat_dropout ds =
     (case (case num_classes of
              Some n \<Rightarrow> Inr n
            | None \<Rightarrow>
                (case csv_columns of
                   None \<Rightarrow> Inl FileNotFoundError
                 | Some cols \<Rightarrow> Inr (int cols - 1))) of
        Inl e \<Rightarrow> Inl e
      | Inr nc \<Rightarrow>
     (case MultiScaleFeatureExtractor_init lib ''resnet50'' True cnn_feat_dim
             [''layer3'', ''layer4''] (fuse_w ds) (fuse_b ds) of
        Inl e \<Rightarrow> Inl e
      | Inr c \<Rightarrow>
     (case StackedGAT_init cnn_feat_dim gat_dims gat_heads gat_dropout 1 True (gat_draws ds) of
        Inl e \<Rightarrow> Inl e
      | Inr g \<Rightarrow>
     (if gat_dims = [] then Inl IndexError
      else
     (case GCNClassifier_init (last gat_dims) nc [256] (gcn_draws ds) of
        Inl e \<Rightarrow> Inl e
      | Inr gc \<Rightarrow>
          Inr \<lparr> training = True, cnn = c, gat = g, gcn = gc,
                fm_dropout = \<lparr> training = True, drop_p = 0.3 \<rparr>,
                gat_norm = LayerNorm_init (last gat_dims) \<rparr>)))))"

text \<open>
  Step 2 of \<open>forward\<close>: the adjacency matrix of a batch of embeddings.  It is
  computed in the exact arithmetic of the model; the program's floats agree with it up to
  rounding only, so that an entry of the program can leave [0, 1] by a rounding error
  (a diagonal entry of \<open>1.0000001\<close>, a slightly negative entry for opposite
  embeddings).  What rounding preserves is the symmetry, the finiteness, and a diagonal
  entry of at least 1/2: the similarity of a vector with itself is computed from squares,
  hence non-negative also in floats.
\<close>

definition build_adjacency :: "cos_impl \<Rightarrow> mat \<Rightarrow> mat" where
  "build_adjacency impl features =
     map (\<lambda>fi. map (\<lambda>fj. fdiv (fadd (cosine_similarity impl fi fj) (Num 1)) (Num 2)) features)
       features"

definition FullModel_forward ::
  "'bs torch_lib \<Rightarrow> 'bs full_model \<Rightarrow> fm_rng \<Rightarrow> tensor4 \<Rightarrow> (error + mat) \<times> 'bs full_model" where
  "FullModel_forward lib m rng x_img =
     (case MultiScaleFeatureExtractor_forward lib (cnn m) x_img of
        (Inl e, c') \<Rightarrow> (Inl e, m\<lparr> cnn := c' \<rparr>)
      | (Inr feats, c') \<Rightarrow>
          (let features = Dropout_forward (fm_dropout m) (feat_keep rng) feats;
               adj_matrix = build_adjacency (cos_version lib) features
           in case StackedGAT_forward (gat m) (gat_rngs rng) features adj_matrix of
                Inl e \<Rightarrow> (Inl e, m\<lparr> cnn := c' \<rparr>)
              | Inr g \<Rightarrow>
                  (let gat_out = Dropout_forward (fm_dropout m) (out_keep rng)
                                   (map (map (leaky_relu 0.2)) (LayerNorm_forward (gat_norm m) g));
                       edge_index = nonzero adj_matrix
                   in case GCNClassifier_forward (gcn m) gat_out edge_index of
                        (r, gc') \<Rightarrow> (r, m\<lparr> cnn := c', gcn := gc' \<rparr>))))"

text \<open>\<open>model.eval()\<close>: the flag of the module and of every module below it is cleared.\<close>

fun gcn_module_eval :: "gcn_module \<Rightarrow> gcn_module" where
  "gcn_module_eval (BatchNorm1d bn) = BatchNorm1d (bn\<lparr> training := False \<rparr>)"
| "gcn_module_eval l = l"

definition FullModel_eval :: "'bs full_model \<Rightarrow> 'bs full_model" where
  "FullModel_eval m =
     m\<lparr> training := False,
        cnn := (cnn m)\<lparr> training := False, fuse_bn := (fuse_bn (cnn m))\<lparr> training := False \<rparr> \<rparr>,
        gat := (gat m)\<lparr> training := False,
                       layers := map (\<lambda>l. l\<lparr> training := False \<rparr>) (layers (gat m)) \<rparr>,
        gcn := (gcn m)\<lparr> training := False,
                       gcn_layers := map gcn_module_eval (gcn_layers (gcn m)) \<rparr>,
        fm_dropout := (fm_dropout m)\<lparr> training := False \<rparr>,
        gat_norm := (gat_norm m)\<lparr> training := False \<rparr> \<rparr>"

section \<open>ImageGraphPipeline\<close>

text \<open>
  The wrapper holds the model and the preprocessing transform of the library (resize,
  conversion to a tensor, channel-wise normalisation), a function from a decoded image
  to a [C, H, W] tensor.  \<open>files\<close> maps a path to the image stored there.  The
  gradient mode of the library is a global flag: \<open>with torch.no_grad()\<close> clears it for
  its body and restores it afterwards, and the result of a pass of a model with
  trainable parameters is tracked exactly if the flag is set during the pass.
\<close>

record ('bs, 'img) image_graph_pipeline = nn_module +
  model :: "'bs full_model"
  preprocess :: "'img \<Rightarrow> tensor3"

record torch_ctx =
  grad_enabled :: bool

record out_tensor =
  data :: vec
  requires_grad :: bool

definition ImageGraphPipeline_forward ::
  "'bs torch_lib \<Rightarrow> (string \<rightharpoonup> 'img) \<Rightarrow> torch_ctx \<Rightarrow> ('bs, 'img) image_graph_pipeline \<Rightarrow> fm_rng
     \<Rightarrow> string \<Rightarrow> (error + out_tensor) \<times> ('bs, 'img) image_graph_pipeline \<times> torch_ctx" where
  "ImageGraphPipeline_forward lib files ctx pl rng image_path =
     (let m = FullModel_eval (model pl);
          ctx1 = ctx\<lparr> grad_enabled := False \<rparr>
      in case files image_path of
           None \<Rightarrow> (Inl FileNotFoundError, pl\<lparr> model := m \<rparr>, ctx)
         | Some img \<Rightarrow>
             (let img_tensor = [preprocess pl img];
                  ctx2 = ctx1\<lparr> grad_enabled := False \<rparr>
              in case FullModel_forward lib m rng img_tensor of
                   (Inl e, m') \<Rightarrow> (Inl e, pl\<lparr> model := m' \<rparr>, ctx)
                 | (Inr output, m') \<Rightarrow>
                     (case output of
                        [] \<Rightarrow> (Inl IndexError, pl\<lparr> model := m' \<rparr>, ctx)
                      | row # _ \<Rightarrow>
                          (Inr \<lparr> data = row, requires_grad = grad_enabled ctx2 \<rparr>,
                           pl\<lparr> model := m' \<rparr>, ctx))))"

section \<open>FocalLoss\<close>

record focal_loss =
  gamma :: real
  focal_alpha :: real

text \<open>
  \<open>F.binary_cross_entropy_with_logits\<close> on one finite element, as the library computes
  it: \<open>(1 - t) * x - log_sigmoid x\<close>, with the logarithm of the sigmoid in its
  stable form.
\<close>

definition log_sigmoid :: "real \<Rightarrow> real" where
  "log_sigmoid x = min x 0 - ln (1 + exp (- \<bar>x\<bar>))"

definition binary_cross_entropy_with_logits :: "real \<Rightarrow> real \<Rightarrow> real" where
  "binary_cross_entropy_with_logits x t = (1 - t) * x - log_sigmoid x"

text \<open>\<open>b ** g\<close> for a tensor element \<open>b\<close> and a Python float \<open>g\<close>.\<close>

definition pow_scalar :: "real \<Rightarrow> real \<Rightarrow> fval" where
  "pow_scalar b g =
     (if g = 0 then Num 1
      else if 0 < b then Num (b powr g)
      else if b = 0 then (if 0 < g then Num 0 else PosInf)
      else if g = of_int \<lfloor>g\<rfloor> then Num (power_int b \<lfloor>g\<rfloor>)
      else NaN)"

text \<open>\<open>forward\<close> on finite tensors, given by their elements in order.  The library
  refuses a target whose size differs from the input's.\<close>

definition FocalLoss_forward :: "focal_loss \<Rightarrow> real list \<Rightarrow> real list \<Rightarrow> error + fval" where
  "FocalLoss_forward fl inputs targets =
     (if length inputs \<noteq> length targets then Inl ValueError
      else
        let bce_loss = map2 binary_cross_entropy_with_logits inputs targets;
            pt = map (\<lambda>b. exp (- b)) bce_loss;
            focal = map2 (\<lambda>p b. fmul (fmul (Num (focal_alpha fl)) (pow_scalar (1 - p) (gamma fl)))
                                   (Num b)) pt bce_loss
        in Inr (fmean focal))"

text \<open>
  The reading of the loss in words: binary cross-entropy of the probability
  \<open>sigmoid x\<close> against the target.
\<close>

definition sigmoid :: "real \<Rightarrow> real" where
  "sigmoid x = 1 / (1 + exp (- x))"

definition bce_of_probability :: "real \<Rightarrow> real \<Rightarrow> real" where
  "bce_of_probability q t = - (t * ln q + (1 - t) * ln (1 - q))"

definition focal_term :: "focal_loss \<Rightarrow> real \<Rightarrow> fval" where
  "focal_term fl bce =
     fmul (fmul (Num (focal_alpha fl)) (pow_scalar (1 - exp (- bce)) (gamma fl))) (Num bce)"

section \<open>Example configurations\<close>

text \<open>A library whose backbone passes its input through, used to run the model on small
  inputs.\<close>

definition stub_resnet :: "unit resnet" where
  "stub_resnet = \<lparr> rn_state = (), rn_stem = (\<lambda>_ _ t. t), rn_layer1 = (\<lambda>_ _ t. t),
     rn_layer2 = (\<lambda>_ _ t. t), rn_layer3 = (\<lambda>_ _ t. t), rn_layer4 = (\<lambda>_ _ t. t),
     rn_advance = (\<lambda>s _. s) \<rparr>"

definition stub_lib :: "unit torch_lib" where
  "stub_lib = \<lparr> models = (\<lambda>_ _. Inr stub_resnet), interpolate = (\<lambda>t _. t),
     cos_version = ClampEach \<rparr>"

section \<open>Well-formed models\<close>

text \<open>
  The shapes the constructors fix, with finite parameters: a matrix of \<open>r\<close> rows of
  \<open>c\<close> finite elements, a linear layer from \<open>n_in\<close> to \<open>n_out\<close> features, and an
  attention layer as \<open>WeightedMultiHeadGAT.__init__\<close> builds it, with a positive
  leaky slope.
\<close>

definition finite_mat :: "nat \<Rightarrow> nat \<Rightarrow> mat \<Rightarrow> bool" where
  "finite_mat r c m = (length m = r \<and> list_all (\<lambda>row. length row = c \<and> list_all is_num row) m)"

definition linear_wf :: "nat \<Rightarrow> nat \<Rightarrow> linear \<Rightarrow> bool" where
  "linear_wf n_in n_out l =
     (finite_mat n_out n_in (weight l)
      \<and> (case bias l of None \<Rightarrow> True | Some b \<Rightarrow> length b = n_out \<and> list_all is_num b))"

definition gat_layer_wf :: "nat \<Rightarrow> nat \<Rightarrow> gat_layer \<Rightarrow> bool" where
  "gat_layer_wf n_in n_out l =
     (let H = nat (heads l); D = nat (out_features_per_head l)
      in 0 < alpha l \<and> n_out = H * D \<and> 0 < n_out
         \<and> linear_wf n_in n_out (W l) \<and> bias (W l) = None
         \<and> linear_wf n_out n_out (head_fusion l)
         \<and> finite_mat H D (attn_src l) \<and> finite_mat H D (attn_dst l)
         \<and> (if use_edge_weights l
             then (case edge_encoder l of None \<Rightarrow> False | Some e \<Rightarrow> linear_wf 1 H e)
             else True)
         \<and> (case res_fc l of None \<Rightarrow> True | Some r \<Rightarrow> linear_wf n_in n_out r))"

text \<open>The exponential of a masked or finite score after the maximum is subtracted.\<close>

fun shifted_exp :: "real \<Rightarrow> fval \<Rightarrow> real" where
  "shifted_exp M (Num r) = exp (r - M)"
| "shifted_exp M _ = 0"

text \<open>A feature extractor on the pass-through backbone that records the last stage and
  projects its single channel to one output feature with weight \<open>w\<close> and bias \<open>b\<close>, in
  evaluation mode with the statistics of a fresh batch normalisation.\<close>

definition example_extractor :: "real \<Rightarrow> real \<Rightarrow> unit feature_extractor" where
  "example_extractor w b =
     \<lparr> training = False, cnn_type = ''resnet50'', output_dims = 1,
       layers_to_extract = [''layer4''], bb_state = (),
       initial_layers = rn_stem stub_resnet,
       feature_layers = [(''layer1'', rn_layer1 stub_resnet), (''layer2'', rn_layer2 stub_resnet),
                         (''layer3'', rn_layer3 stub_resnet), (''layer4'', rn_layer4 stub_resnet)],
       bb_advance = rn_advance stub_resnet,
       fuse_linear = \<lparr> weight = [[Num w]], bias = Some [Num b] \<rparr>,
       fuse_bn = (BatchNorm1d_init 1)\<lparr> training := False \<rparr> \<rparr>"

text \<open>A layer with one head of width one on one input feature, all weights 1, in
  evaluation mode, and the samples that keep every element.\<close>

definition example_layer :: gat_layer where
  "example_layer = \<lparr> training = False, heads = 1, alpha = 1 / 5, dropout = 3 / 10,
          residual = True, use_edge_weights = True, out_features_per_head = 1,
          W = \<lparr> weight = [[Num 1]], bias = None \<rparr>,
          head_fusion = \<lparr> weight = [[Num 1]], bias = Some [Num 0] \<rparr>,
          edge_encoder = Some \<lparr> weight = [[Num 1]], bias = Some [Num 0] \<rparr>,
          attn_src = [[Num 1]], attn_dst = [[Num 1]],
          res_fc = Some \<lparr> weight = [[Num 1]], bias = Some [Num 0] \<rparr> \<rparr>"

definition keep_all :: gat_rng where
  "keep_all = \<lparr> attn_keep = (\<lambda>_ _ _. True), fusion_keep = (\<lambda>_ _. True) \<rparr>"

text \<open>The inner product of two real vectors, and the cosine similarity of two finite
  vectors as a real number.\<close>

definition ip :: "real list \<Rightarrow> real list \<Rightarrow> real" where
  "ip a b = sum_list (map2 (*) a b)"

definition cos_real :: "cos_impl \<Rightarrow> real list \<Rightarrow> real list \<Rightarrow> real" where
  "cos_real impl a b =
     (case impl of
        ClampProduct \<Rightarrow> ip a b / sqrt (max (ip a a * ip b b) ((1 / 10 ^ 8) * (1 / 10 ^ 8)))
      | ClampEach \<Rightarrow>
          ip a b / (max (sqrt (ip a a)) (1 / 10 ^ 8) * max (sqrt (ip b b)) (1 / 10 ^ 8)))"

text \<open>A stack of attention layers as \<open>FullModel\<close> builds it: every layer well-formed
  with a residual projection, each consuming the width the previous one produces; and
  the width the stack produces.\<close>

fun gat_stack_wf :: "nat \<Rightarrow> gat_layer list \<Rightarrow> bool" where
  "gat_stack_wf n [] = True"
| "gat_stack_wf n (l # ls) =
     (gat_layer_wf n (nat (heads l) * nat (out_features_per_head l)) l
      \<and> res_fc l \<noteq> None
      \<and> gat_stack_wf (nat (heads l) * nat (out_features_per_head l)) ls)"

fun gat_stack_out :: "nat \<Rightarrow> gat_layer list \<Rightarrow> nat" where
  "gat_stack_out n [] = n"
| "gat_stack_out n (l # ls) = gat_stack_out (nat (heads l) * nat (out_features_per_head l)) ls"

text \<open>A batch normalisation over \<open>n\<close> channels that accepts a batch of \<open>B\<close> rows
  (a positive \<open>eps\<close>, finite parameters, non-negative running variances, and no
  training pass on a batch of one), and a layer normalisation over width \<open>n\<close>.\<close>

definition bn_wf :: "nat \<Rightarrow> nat \<Rightarrow> batch_norm \<Rightarrow> bool" where
  "bn_wf B n bn =
     (0 < bn_eps bn
      \<and> length (bn_weight bn) = n \<and> list_all is_num (bn_weight bn)
      \<and> length (bn_bias bn) = n \<and> list_all is_num (bn_bias bn)
      \<and> length (running_mean bn) = n \<and> list_all is_num (running_mean bn)
      \<and> length (running_var bn) = n
      \<and> list_all (\<lambda>v. is_num v \<and> 0 \<le> the_num v) (running_var bn)
      \<and> (training bn \<longrightarrow> B \<noteq> 1))"

definition ln_wf :: "nat \<Rightarrow> layer_norm \<Rightarrow> bool" where
  "ln_wf n lnm =
     (0 < ln_eps lnm
      \<and> length (ln_weight lnm) = n \<and> list_all is_num (ln_weight lnm)
      \<and> length (ln_bias lnm) = n \<and> list_all is_num (ln_bias lnm))"

text \<open>A chain of classifier layers on \<open>B\<close> nodes of width \<open>n\<close>, the width it
  produces, and a model whose parts fit together: the fuse block maps \<open>c\<close> pooled
  channels to embeddings of width \<open>d\<close>, and the classifier ends in \<open>C\<close> classes.\<close>

fun gcn_wf :: "nat \<Rightarrow> nat \<Rightarrow> gcn_module list \<Rightarrow> bool" where
  "gcn_wf B n [] = True"
| "gcn_wf B n (GCNConv g # rest) =
     (finite_mat (length (lin_weight g)) n (lin_weight g)
      \<and> length (conv_bias g) = length (lin_weight g) \<and> list_all is_num (conv_bias g)
      \<and> gcn_wf B (length (lin_weight g)) rest)"
| "gcn_wf B n (ReLU # rest) = gcn_wf B n rest"
| "gcn_wf B n (BatchNorm1d bn # rest) = (bn_wf B n bn \<and> gcn_wf B n rest)"

fun gcn_out :: "nat \<Rightarrow> gcn_module list \<Rightarrow> nat" where
  "gcn_out n [] = n"
| "gcn_out n (GCNConv g # rest) = gcn_out (length (lin_weight g)) rest"
| "gcn_out n (ReLU # rest) = gcn_out n rest"
| "gcn_out n (BatchNorm1d bn # rest) = gcn_out n rest"

definition full_model_wf :: "nat \<Rightarrow> nat \<Rightarrow> nat \<Rightarrow> nat \<Rightarrow> 'bs full_model \<Rightarrow> bool" where
  "full_model_wf B c d C m =
     (linear_wf c d (fuse_linear (cnn m)) \<and> bn_wf B d (fuse_bn (cnn m))
      \<and> gat_stack_wf d (layers (gat m))
      \<and> ln_wf (gat_stack_out d (layers (gat m))) (gat_norm m)
      \<and> gcn_wf B (gat_stack_out d (layers (gat m))) (gcn_layers (gcn m))
      \<and> gcn_out (gat_stack_out d (layers (gat m))) (gcn_layers (gcn m)) = C)"

text \<open>A small model in evaluation mode on the pass-through backbone: one attention layer,
  a classifier with a hidden layer of width one and two classes.\<close>

definition example_model :: "unit full_model" where
  "example_model =
     \<lparr> training = False, cnn = example_extractor 1 0,
       gat = \<lparr> training = False, layers = [example_layer] \<rparr>,
       gcn = \<lparr> training = False,
               gcn_layers = [GCNConv \<lparr> lin_weight = [[Num 1]], conv_bias = [Num 0] \<rparr>, ReLU,
                             BatchNorm1d ((BatchNorm1d_init 1)\<lparr> training := False \<rparr>),
                             GCNConv \<lparr> lin_weight = [[Num 1], [Num (- 1)]],
                                       conv_bias = [Num 0, Num 0] \<rparr>] \<rparr>,
       fm_dropout = \<lparr> training = False, drop_p = 3 / 10 \<rparr>,
       gat_norm = (LayerNorm_init 1)\<lparr> training := False \<rparr> \<rparr>"

definition keep_everything :: fm_rng where
  "keep_everything = \<lparr> feat_keep = (\<lambda>_ _. True), gat_rngs = (\<lambda>_. keep_all),
                        out_keep = (\<lambda>_ _. True) \<rparr>"

section \<open>Range of the floating-point format\<close>

text \<open>
  The tensors of the program are single-precision floats, the default of the library.
  The format has a largest finite number, \<open>float_max\<close>; a result of larger magnitude
  becomes an infinity.  The finite arithmetic of the model has no such bound.  A statement
  that needs intermediate results to stay finite therefore names the range they must
  stay in.  A dot product stays in range, in whatever order its terms are added, if the
  sum of the magnitudes of its terms does.
\<close>

definition float_max :: real where
  "float_max = (2 - 1 / 2 ^ 23) * 2 ^ 127"

definition in_float_range :: "fval \<Rightarrow> bool" where
  "in_float_range v = (is_num v \<and> \<bar>the_num v\<bar> \<le> float_max)"

definition dot_in_range :: "vec \<Rightarrow> vec \<Rightarrow> bool" where
  "dot_in_range xs ys =
     (sum_list (map2 (\<lambda>a b. \<bar>the_num a * the_num b\<bar>) xs ys) \<le> float_max)"

definition linear_in_range :: "linear \<Rightarrow> vec \<Rightarrow> bool" where
  "linear_in_range lin v =
     (list_all (dot_in_range v) (weight lin) \<and> list_all in_float_range (linear_apply lin v))"

text \<open>
  Every value computed on the way to the unmasked scores of destination \<open>i\<close> and head
  \<open>k\<close> is in range: the projection \<open>W\<close> of every node, the dot products with
  \<open>attn_src\<close> and \<open>attn_dst\<close>, and for every source with positive adjacency the sum
  of the two attention terms, the edge term, the score and its leaky ReLU.
\<close>

definition scores_in_range :: "gat_layer \<Rightarrow> mat \<Rightarrow> mat \<Rightarrow> nat \<Rightarrow> nat \<Rightarrow> bool" where
  "scores_in_range l x adj i k =
     (let h = gat_h l x;
          a_src = map (\<lambda>hn. map2 dot hn (attn_src l)) h;
          a_dst = map (\<lambda>hn. map2 dot hn (attn_dst l)) h
      in list_all (linear_in_range (W l)) x
         \<and> list_all (\<lambda>hn. dot_in_range (hn ! k) (attn_src l ! k)
                          \<and> dot_in_range (hn ! k) (attn_dst l ! k)) h
         \<and> list_all (\<lambda>j. fgt (adj ! i ! j) (Num 0) \<longrightarrow>
               in_float_range (fadd (a_src ! i ! k) (a_dst ! j ! k))
               \<and> (use_edge_weights l \<longrightarrow>
                    linear_in_range (the (edge_encoder l)) [adj ! i ! j])
               \<and> in_float_range (gat_scores l x adj ! i ! j ! k)
               \<and> in_float_range (leaky_relu (alpha l) (gat_scores l x adj ! i ! j ! k)))
             [0..<length x])"


section \<open>Evaluation mode\<close>

text \<open>
  A model is in evaluation mode when the flag \<open>training\<close> is cleared on the model and
  on every module below it, which is the state \<open>model.eval()\<close> establishes.
\<close>

fun gcn_module_in_eval :: "gcn_module \<Rightarrow> bool" where
  "gcn_module_in_eval (BatchNorm1d bn) = (\<not> training bn)"
| "gcn_module_in_eval _ = True"

definition in_eval_mode :: "'bs full_model \<Rightarrow> bool" where
  "in_eval_mode m =
     (\<not> training m \<and> \<not> training (cnn m) \<and> \<not> training (fuse_bn (cnn m))
      \<and> \<not> training (gat m) \<and> list_all (\<lambda>l. \<not> training l) (layers (gat m))
      \<and> \<not> training (gcn m) \<and> list_all gcn_module_in_eval (gcn_layers (gcn m))
      \<and> \<not> training (fm_dropout m) \<and> \<not> training (gat_norm m))"

text \<open>A wrapper around the small model, here with the model and its dropout still in
  training mode, whose transform yields a single pixel; and the samples that drop every
  element.\<close>

definition example_pipeline :: "(unit, unit) image_graph_pipeline" where
  "example_pipeline =
     \<lparr> training = True,
       model = example_model\<lparr> training := True,
                 fm_dropout := \<lparr> training = True, drop_p = 3 / 10 \<rparr> \<rparr>,
       preprocess = (\<lambda>_. [[[Num 1]]]) \<rparr>"

definition drop_everything :: fm_rng where
  "drop_everything =
     \<lparr> feat_keep = (\<lambda>_ _. False),
       gat_rngs = (\<lambda>_. \<lparr> attn_keep = (\<lambda>_ _ _. False), fusion_keep = (\<lambda>_ _. False) \<rparr>),
       out_keep = (\<lambda>_ _. False) \<rparr>"

section \<open>Residual configuration\<close>

text \<open>
  C1.  A layer built with \<open>residual=False\<close> (the self-test's
  \<open>WeightedMultiHeadGAT(2048, 1020, residual=False)\<close>, other arguments at their defaults)
  is constructed without error, but it has no attribute \<open>res_fc\<close>: the absence check
  \<open>layer.res_fc is None\<close> raises \<open>AttributeError\<close> instead of answering, and so does
  every call of \<open>forward\<close>.
\<close>

theorem residual_disabled_raises_AttributeError:
  "\<exists>l. WeightedMultiHeadGAT_init 2048 1020 12 1 0.3 0.2 False True ps = Inr l
       \<and> res_fc_is_None l = Inl AttributeError
       \<and> WeightedMultiHeadGAT_forward l rng x adj = Inl AttributeError"
  by (simp add: WeightedMultiHeadGAT_init_def res_fc_is_None_def get_res_fc_def
      WeightedMultiHeadGAT_forward_def Let_def)

section \<open>Empty stack of attention layers\<close>

text \<open>
  C9.  \<open>StackedGAT\<close> has no check for an empty \<open>hidden_dims\<close>: with the empty list its
  constructor succeeds and yields a stage without layers, whose \<open>forward\<close> returns its
  input.  The configuration error appears one level up: \<open>FullModel\<close> with an empty
  \<open>gat_dims\<close> fails at construction, with \<open>IndexError\<close> from \<open>gat_dims[-1]\<close> once
  the class count and the feature extractor have been obtained.
\<close>

theorem stacked_gat_empty_no_error:
  "StackedGAT_init in_features [] hds p_drop edge_dim resid ps
     = Inr \<lparr> training = True, layers = [] \<rparr>
   \<and> StackedGAT_forward \<lparr> training = True, layers = [] \<rparr> rng x adj = Inr x
   \<and> FullModel_init lib csv_columns cnn_feat_dim [] num_classes gat_heads gat_dropout ds =
       (case (case num_classes of
                Some n \<Rightarrow> Inr n
              | None \<Rightarrow> (case csv_columns of None \<Rightarrow> Inl FileNotFoundError
                                          | Some cols \<Rightarrow> Inr (int cols - 1))) of
          Inl e \<Rightarrow> Inl e
        | Inr nc \<Rightarrow>
            (case MultiScaleFeatureExtractor_init lib ''resnet50'' True cnn_feat_dim
                    [''layer3'', ''layer4''] (fuse_w ds) (fuse_b ds) of
               Inl e \<Rightarrow> Inl e
             | Inr c \<Rightarrow> Inl IndexError))"
  by (simp add: StackedGAT_init_def StackedGAT_forward_def FullModel_init_def
      split: sum.splits option.splits)

theorem stacked_gat_empty_no_error_witness:
  "FullModel_init stub_lib None 2048 [] (Some 20) 12 (3 / 10)
     \<lparr> fuse_w = [], fuse_b = [], gat_draws = (\<lambda>_. undefined), gcn_draws = (\<lambda>_. undefined) \<rparr>
   = Inl IndexError"
  using stacked_gat_empty_no_error [of 0 0 0 0 False undefined undefined undefined undefined
      stub_lib None 2048 "Some 20" 12 "3/10"
      "\<lparr> fuse_w = [], fuse_b = [], gat_draws = (\<lambda>_. undefined), gcn_draws = (\<lambda>_. undefined) \<rparr>"]
  by (simp add: MultiScaleFeatureExtractor_init_def stub_lib_def stub_resnet_def channel_map_def)

text \<open>The claim as stated fails: the constructor with the default arguments of
  \<open>FullModel\<close> and no hidden dimension raises nothing.\<close>

theorem stacked_gat_empty_counterexample:
  "\<not> (\<exists>e. StackedGAT_init 2048 [] 12 (3 / 10) 1 True
        (\<lambda>_. \<lparr> W_weight = [], fusion_weight = [], fusion_bias = [], edge_weight = [],
                edge_bias = [], src_init = [], dst_init = [], res_weight = [], res_bias = [] \<rparr>)
      = Inl e)"
  by (simp add: StackedGAT_init_def)

section \<open>FocalLoss\<close>

lemma ln_sigmoid: "ln (sigmoid x) = log_sigmoid x"
proof -
  have pos: "0 < 1 + exp (- x)" by (simp add: add_pos_pos)
  have a: "ln (sigmoid x) = - ln (1 + exp (- x))"
    unfolding sigmoid_def using pos by (simp add: ln_div)
  show ?thesis
  proof (cases "0 \<le> x")
    case True
    then show ?thesis by (simp add: a log_sigmoid_def)
  next
    case False
    then have neg: "x < 0" by simp
    have "1 + exp (- x) = exp (- x) * (1 + exp x)"
      by (simp add: algebra_simps exp_minus_inverse [symmetric] flip: exp_add)
    moreover have "0 < 1 + exp x" by (simp add: add_pos_pos)
    ultimately have "ln (1 + exp (- x)) = - x + ln (1 + exp x)"
      using ln_mult_pos [of "exp (- x)" "1 + exp x"] by simp
    then show ?thesis using neg by (simp add: a log_sigmoid_def)
  qed
qed

lemma ln_one_minus_sigmoid: "ln (1 - sigmoid x) = log_sigmoid x - x"
proof -
  have pos: "0 < 1 + exp (- x)" by (simp add: add_pos_pos)
  have "1 - sigmoid x = exp (- x) * sigmoid x"
    unfolding sigmoid_def using pos by (simp add: field_simps)
  moreover have "0 < sigmoid x" unfolding sigmoid_def using pos by simp
  ultimately have "ln (1 - sigmoid x) = - x + ln (sigmoid x)"
    using ln_mult_pos [of "exp (- x)" "sigmoid x"] by simp
  then show ?thesis by (simp add: ln_sigmoid)
qed

lemma bce_with_logits_eq:
  "binary_cross_entropy_with_logits x t = bce_of_probability (sigmoid x) t"
  by (simp add: binary_cross_entropy_with_logits_def bce_of_probability_def ln_sigmoid
      ln_one_minus_sigmoid algebra_simps)

lemma map2_map_same: "map2 f (map g bs) bs = map (\<lambda>b. f (g b) b) bs"
  by (induction bs) auto

lemma FocalLoss_forward_terms:
  "length inputs = length targets \<Longrightarrow>
   FocalLoss_forward fl inputs targets =
     Inr (fmean (map2 (\<lambda>x t. focal_term fl (binary_cross_entropy_with_logits x t)) inputs targets))"
  unfolding FocalLoss_forward_def Let_def map2_map_same
  by (simp add: focal_term_def split_def comp_def)

lemma FullModel_forward_sigmoid:
  "fst (FullModel_forward lib m rng x_img) = Inr out \<Longrightarrow> \<exists>y. out = map (map fsigmoid) y"
  by (auto simp: FullModel_forward_def GCNClassifier_forward_def Let_def
      split: prod.splits sum.splits)

text \<open>
  C10.  On finite tensors of equal size \<open>FocalLoss.forward\<close> returns the mean of
  \<open>alpha * (1 - exp (- bce)) ** gamma * bce\<close>, where \<open>bce\<close> is the binary cross-entropy
  of \<open>sigmoid x\<close> against the target: the loss applies the sigmoid itself.  Every
  successful output of \<open>FullModel.forward\<close> is already the image of a sigmoid, so on
  that output the loss works on \<open>sigmoid (sigmoid z)\<close>.
\<close>

theorem focal_loss_applies_sigmoid:
  "length inputs = length targets \<Longrightarrow>
   FocalLoss_forward fl inputs targets =
     Inr (fmean (map2 (\<lambda>x t. focal_term fl (bce_of_probability (sigmoid x) t)) inputs targets))
   \<and> (\<forall>out. fst (FullModel_forward lib m rng x_img) = Inr out
          \<longrightarrow> (\<exists>y. out = map (map fsigmoid) y))
   \<and> (\<forall>z. fsigmoid (Num z) = Num (sigmoid z))"
  using FullModel_forward_sigmoid [of lib m rng x_img]
  by (simp add: FocalLoss_forward_terms bce_with_logits_eq sigmoid_def)

theorem focal_loss_applies_sigmoid_witness:
  "FocalLoss_forward \<lparr> gamma = 2, focal_alpha = 1 / 4 \<rparr> [0] [1] = Inr (Num (ln 2 / 16))"
proof -
  have s: "sigmoid 0 = 1 / 2" by (simp add: sigmoid_def)
  have b: "bce_of_probability (1 / 2) 1 = ln 2"
    by (simp add: bce_of_probability_def ln_div)
  have p: "(1 / 2 :: real) powr 2 = 1 / 4" by (simp add: power2_eq_square)
  have "focal_term \<lparr> gamma = 2, focal_alpha = 1 / 4 \<rparr> (ln 2) = Num (ln 2 / 16)"
    by (simp add: focal_term_def pow_scalar_def exp_minus inverse_eq_divide p)
  then show ?thesis
    using focal_loss_applies_sigmoid [of "[0]" "[1]" "\<lparr> gamma = 2, focal_alpha = 1 / 4 \<rparr>"
        stub_lib undefined undefined undefined, THEN conjunct1]
    by (simp add: s b fmean_def fsum_def)
qed

section \<open>Arithmetic on finite values, softmax and the attention weights\<close>

lemma is_num_iff: "is_num v \<longleftrightarrow> (\<exists>r. v = Num r)"
  by (cases v) auto

lemma Num_the_num: "is_num v \<Longrightarrow> Num (the_num v) = v"
  by (cases v) auto

lemma all_num_map_the_num: "list_all is_num xs \<Longrightarrow> map Num (map the_num xs) = xs"
  by (induction xs) (auto simp: Num_the_num)

lemma list_all_is_num_map_Num: "list_all is_num (map Num rs)"
  by (induction rs) auto

lemma fsum_Nil: "fsum [] = Num 0"
  by (simp add: fsum_def)

lemma fsum_Cons: "fsum (v # vs) = fadd v (fsum vs)"
  by (simp add: fsum_def)

lemma fsum_map_Num: "fsum (map Num rs) = Num (sum_list rs)"
  by (induction rs) (auto simp: fsum_Nil fsum_Cons)

lemma fsum_finite: "list_all is_num xs \<Longrightarrow> fsum xs = Num (sum_list (map the_num xs))"
  using fsum_map_Num [of "map the_num xs"] all_num_map_the_num [of xs] by simp

lemma fadd_NaN_right: "fadd v NaN = NaN"
  by (cases v) auto

lemma fmul_NaN_right: "fmul v NaN = NaN"
  by (cases v) auto

lemma fdiv_NaN_right: "fdiv v NaN = NaN"
  by (cases v) auto

lemma fsum_NaN: "NaN \<in> set xs \<Longrightarrow> fsum xs = NaN"
  by (induction xs) (auto simp: fsum_Cons fadd_NaN_right)

lemma is_num_fadd: "is_num a \<Longrightarrow> is_num b \<Longrightarrow> is_num (fadd a b)"
  by (auto simp: is_num_iff)

lemma is_num_fmul: "is_num a \<Longrightarrow> is_num b \<Longrightarrow> is_num (fmul a b)"
  by (auto simp: is_num_iff)

lemma is_num_fsub: "is_num a \<Longrightarrow> is_num b \<Longrightarrow> is_num (fsub a b)"
  by (auto simp: is_num_iff fsub_def)

lemma is_num_fdiv: "is_num a \<Longrightarrow> is_num b \<Longrightarrow> the_num b \<noteq> 0 \<Longrightarrow> is_num (fdiv a b)"
  by (auto simp: is_num_iff)

lemma is_num_fsum: "list_all is_num xs \<Longrightarrow> is_num (fsum xs)"
  by (simp add: fsum_finite)

lemma list_all_map2_num:
  "(\<And>a b. is_num a \<Longrightarrow> is_num b \<Longrightarrow> is_num (f a b)) \<Longrightarrow>
   list_all is_num xs \<Longrightarrow> list_all is_num ys \<Longrightarrow> list_all is_num (map2 f xs ys)"
  by (induction xs arbitrary: ys) (auto simp: list_all_iff dest!: set_zip_leftD set_zip_rightD
      elim!: in_set_zipE)

lemma is_num_dot: "list_all is_num xs \<Longrightarrow> list_all is_num ys \<Longrightarrow> is_num (dot xs ys)"
  unfolding dot_def by (intro is_num_fsum list_all_map2_num is_num_fmul)

lemma dot_Num: "dot (map Num as) (map Num bs) = Num (sum_list (map2 (*) as bs))"
proof -
  have "map2 fmul (map Num as) (map Num bs) = map Num (map2 (*) as bs)"
    by (induction as bs rule: list_induct2') auto
  then show ?thesis unfolding dot_def by (simp only: fsum_map_Num)
qed


lemma fmax_list_Cons: "fmax_list (v # vs) = fmax v (fmax_list vs)"
  by (simp add: fmax_list_def)

lemma fmax_list_masked:
  "\<forall>v\<in>set xs. v = NegInf \<or> is_num v \<Longrightarrow>
   (if \<exists>v\<in>set xs. is_num v then is_num (fmax_list xs) else fmax_list xs = NegInf)"
proof (induction xs)
  case Nil
  then show ?case by (simp add: fmax_list_def)
next
  case (Cons v vs)
  then have ih: "if \<exists>v\<in>set vs. is_num v then is_num (fmax_list vs) else fmax_list vs = NegInf"
    by simp
  from Cons.prems have "v = NegInf \<or> is_num v" by simp
  then show ?case using ih
    by (auto simp: fmax_list_Cons fmax_def is_num_iff split: if_splits)
qed

lemma sum_list_pos_real:
  fixes rs :: "real list"
  shows "\<forall>x\<in>set rs. 0 \<le> x \<Longrightarrow> \<exists>x\<in>set rs. 0 < x \<Longrightarrow> 0 < sum_list rs"
proof (induction rs)
  case Nil
  then show ?case by simp
next
  case (Cons r rs)
  have nn: "0 \<le> sum_list rs" using Cons.prems(1) by (simp add: sum_list_nonneg)
  show ?case
  proof (cases "0 < r")
    case True
    then show ?thesis using nn by simp
  next
    case False
    then have "\<exists>x\<in>set rs. 0 < x" using Cons.prems(2) by auto
    then have "0 < sum_list rs" using Cons.IH Cons.prems(1) by simp
    then show ?thesis using Cons.prems(1) by simp
  qed
qed

lemma softmax_unfold:
  assumes ok: "\<forall>v\<in>set xs. v = NegInf \<or> is_num v" and ex: "\<exists>v\<in>set xs. is_num v"
  shows "\<exists>M. 0 < sum_list (map (shifted_exp M) xs) \<and>
             softmax xs = map (\<lambda>v. Num (shifted_exp M v / sum_list (map (shifted_exp M) xs))) xs"
proof -
  from fmax_list_masked [OF ok] ex obtain M where m: "fmax_list xs = Num M"
    by (auto simp: is_num_iff)
  have es: "map (\<lambda>v. fexp (fsub v (Num M))) xs = map (\<lambda>v. Num (shifted_exp M v)) xs"
    using ok by (auto simp: fsub_def is_num_iff)
  let ?S = "sum_list (map (shifted_exp M) xs)"
  have nn: "\<forall>r\<in>set (map (shifted_exp M) xs). 0 \<le> r"
    using ok by (auto simp: is_num_iff)
  from ex obtain r where r: "Num r \<in> set xs" by (auto simp: is_num_iff)
  have "0 < shifted_exp M (Num r)" by simp
  with r have pos1: "\<exists>r\<in>set (map (shifted_exp M) xs). 0 < r"
    by (metis image_eqI list.set_map)
  have pos: "0 < ?S" by (rule sum_list_pos_real [OF nn pos1])
  have s: "fsum (map (\<lambda>v. Num (shifted_exp M v)) xs) = Num ?S"
    using fsum_map_Num [of "map (shifted_exp M) xs"] by (simp add: comp_def)
  have "softmax xs = map (\<lambda>e. fdiv e (Num ?S)) (map (\<lambda>v. Num (shifted_exp M v)) xs)"
    unfolding softmax_def Let_def m es s ..
  then have "softmax xs = map (\<lambda>v. Num (shifted_exp M v / ?S)) xs"
    using pos by simp
  then show ?thesis using pos by blast
qed

lemma softmax_finite:
  assumes ok: "\<forall>v\<in>set xs. v = NegInf \<or> is_num v" and ex: "\<exists>v\<in>set xs. is_num v"
  shows "list_all is_num (softmax xs)" and "fsum (softmax xs) = Num 1"
proof -
  from softmax_unfold [OF ok ex] obtain M where
    pos: "0 < sum_list (map (shifted_exp M) xs)" and
    sm: "softmax xs = map (\<lambda>v. Num (shifted_exp M v / sum_list (map (shifted_exp M) xs))) xs"
    by blast
  let ?S = "sum_list (map (shifted_exp M) xs)"
  show "list_all is_num (softmax xs)" by (simp add: sm list_all_iff)
  have "fsum (softmax xs) = Num (sum_list (map (\<lambda>v. shifted_exp M v / ?S) xs))"
    using fsum_map_Num [of "map (\<lambda>v. shifted_exp M v / ?S) xs"] by (simp add: sm comp_def)
  also have "sum_list (map (\<lambda>v. shifted_exp M v / ?S) xs) = ?S / ?S"
    by (simp add: divide_inverse sum_list_mult_const)
  also have "?S / ?S = 1" using pos by simp
  finally show "fsum (softmax xs) = Num 1" .
qed

lemma length_softmax: "length (softmax xs) = length xs"
  by (simp add: softmax_def Let_def)

lemma softmax_masked:
  assumes "xs \<noteq> []" and "\<forall>v\<in>set xs. v = NegInf"
  shows "softmax xs = map (\<lambda>_. NaN) xs"
proof -
  have a: "\<forall>v\<in>set xs. v = NegInf \<or> is_num v" using assms(2) by simp
  have b: "\<not> (\<exists>v\<in>set xs. is_num v)" using assms(2) by auto
  have m: "fmax_list xs = NegInf"
    using fmax_list_masked [OF a] b by simp
  have es: "map (\<lambda>v. fexp (fsub v NegInf)) xs = map (\<lambda>_. NaN) xs"
    using assms(2) by (auto simp: fsub_def)
  have "NaN \<in> set (map (\<lambda>_. NaN) xs)" using assms(1) by (cases xs) auto
  then have s: "fsum (map (\<lambda>_. NaN) xs) = NaN" by (rule fsum_NaN)
  have "softmax xs = map (\<lambda>e. fdiv e NaN) (map (\<lambda>_. NaN) xs)"
    unfolding softmax_def Let_def m es s ..
  then show ?thesis by simp
qed


lemma gat_layer_wfD:
  assumes "gat_layer_wf n_in n_out l"
  shows "0 < alpha l" and "n_out = nat (heads l) * nat (out_features_per_head l)" and "0 < n_out"
    and "linear_wf n_in n_out (W l)" and "bias (W l) = None"
    and "linear_wf n_out n_out (head_fusion l)"
    and "finite_mat (nat (heads l)) (nat (out_features_per_head l)) (attn_src l)"
    and "finite_mat (nat (heads l)) (nat (out_features_per_head l)) (attn_dst l)"
    and "use_edge_weights l \<Longrightarrow> \<exists>e. edge_encoder l = Some e \<and> linear_wf 1 (nat (heads l)) e"
    and "res_fc l = Some r \<Longrightarrow> linear_wf n_in n_out r"
  using assms by (auto simp: gat_layer_wf_def Let_def split: option.splits if_splits)

lemma finite_matD:
  "finite_mat r c m \<Longrightarrow> length m = r"
  "finite_mat r c m \<Longrightarrow> i < r \<Longrightarrow> length (m ! i) = c"
  "finite_mat r c m \<Longrightarrow> i < r \<Longrightarrow> list_all is_num (m ! i)"
  "finite_mat r c m \<Longrightarrow> i < r \<Longrightarrow> j < c \<Longrightarrow> is_num (m ! i ! j)"
  by (auto simp: finite_mat_def list_all_length)

lemma finite_matI:
  "length m = r \<Longrightarrow> (\<And>i. i < r \<Longrightarrow> length (m ! i) = c \<and> list_all is_num (m ! i)) \<Longrightarrow>
   finite_mat r c m"
  by (auto simp: finite_mat_def list_all_length)

lemma linear_apply_length: "linear_wf n_in n_out l \<Longrightarrow> length (linear_apply l x) = n_out"
  by (auto simp: linear_wf_def linear_apply_def finite_mat_def split: option.splits)

lemma linear_apply_finite:
  assumes "linear_wf n_in n_out l" and "list_all is_num x"
  shows "list_all is_num (linear_apply l x)"
proof -
  have rows: "\<forall>w\<in>set (weight l). list_all is_num w"
    using assms(1) by (auto simp: linear_wf_def finite_mat_def list_all_iff)
  have d: "\<forall>w\<in>set (weight l). is_num (dot x w)"
    using rows assms(2) by (auto intro: is_num_dot)
  show ?thesis
  proof (cases "bias l")
    case None
    then show ?thesis using d by (simp add: linear_apply_def list_all_iff)
  next
    case (Some b)
    then have "list_all is_num b" using assms(1) by (simp add: linear_wf_def)
    then show ?thesis using d Some
      by (auto simp: linear_apply_def list_all_iff is_num_fadd elim!: in_set_zipE)
  qed
qed

lemma view_heads_length: "length (view_heads H D row) = H"
  by (simp add: view_heads_def)

lemma view_heads_nth_length:
  assumes "length row = H * D" and "k < H"
  shows "length (view_heads H D row ! k) = D"
proof -
  have "Suc k \<le> H" using assms(2) by simp
  then have "Suc k * D \<le> H * D" by (rule mult_le_mono1)
  then have "D \<le> H * D - k * D" by simp
  then show ?thesis using assms by (simp add: view_heads_def)
qed

lemma view_heads_nth_finite:
  assumes "list_all is_num row" and "k < H"
  shows "list_all is_num (view_heads H D row ! k)"
  using assms by (auto simp: view_heads_def list_all_iff dest!: in_set_takeD in_set_dropD)

lemma gat_h_length: "length (gat_h l x) = length x"
  by (simp add: gat_h_def)

lemma gat_h_nth:
  assumes wf: "gat_layer_wf n_in n_out l" and x: "finite_mat N n_in x"
    and i: "i < N" and k: "k < nat (heads l)"
  shows "length (gat_h l x ! i) = nat (heads l)"
    and "length (gat_h l x ! i ! k) = nat (out_features_per_head l)"
    and "list_all is_num (gat_h l x ! i ! k)"
proof -
  let ?H = "nat (heads l)" and ?D = "nat (out_features_per_head l)"
  have lw: "linear_wf n_in (?H * ?D) (W l)" using gat_layer_wfD(2,4) [OF wf] by simp
  have len: "length x = N" and fin: "list_all is_num (x ! i)"
    using x i by (auto dest: finite_matD)
  have row: "gat_h l x ! i = view_heads ?H ?D (linear_apply (W l) (x ! i))"
    using i len by (simp add: gat_h_def)
  show "length (gat_h l x ! i) = ?H" by (simp add: row view_heads_length)
  show "length (gat_h l x ! i ! k) = ?D"
    unfolding row using k linear_apply_length [OF lw] by (intro view_heads_nth_length) auto
  show "list_all is_num (gat_h l x ! i ! k)"
    unfolding row using k linear_apply_finite [OF lw fin] by (intro view_heads_nth_finite) auto
qed

lemma gat_scores_nth:
  assumes wf: "gat_layer_wf n_in n_out l" and x: "finite_mat N n_in x"
    and adj: "finite_mat N N adj" and i: "i < N" and j: "j < N" and k: "k < nat (heads l)"
  shows "if fgt (adj ! i ! j) (Num 0) then is_num (gat_scores l x adj ! i ! j ! k)
         else gat_scores l x adj ! i ! j ! k = NegInf"
proof -
  let ?H = "nat (heads l)"
  let ?h = "gat_h l x"
  have len: "length x = N" using x by (auto dest: finite_matD)
  have src: "finite_mat ?H (nat (out_features_per_head l)) (attn_src l)"
    and dst: "finite_mat ?H (nat (out_features_per_head l)) (attn_dst l)"
    using gat_layer_wfD(7,8) [OF wf] by simp_all
  have s: "is_num (map2 dot (?h ! i) (attn_src l) ! k)"
    using gat_h_nth [OF wf x i k] finite_matD [OF src] k by (simp add: is_num_dot)
  have d: "is_num (map2 dot (?h ! j) (attn_dst l) ! k)"
    using gat_h_nth [OF wf x j k] finite_matD [OF dst] k by (simp add: is_num_dot)
  let ?attn = "map (\<lambda>k. fadd (map (\<lambda>hn. map2 dot hn (attn_src l)) ?h ! i ! k)
                            (map (\<lambda>hn. map2 dot hn (attn_dst l)) ?h ! j ! k)) [0..<?H]"
  have a: "is_num (?attn ! k)" using s d i j k len by (simp add: gat_h_length is_num_fadd)
  let ?attn' = "if use_edge_weights l
                then map2 fadd ?attn (linear_apply (the (edge_encoder l)) [adj ! i ! j])
                else ?attn"
  have a': "length ?attn' = ?H \<and> is_num (?attn' ! k)"
  proof (cases "use_edge_weights l")
    case False
    then show ?thesis using a by simp
  next
    case True
    then obtain e where e: "edge_encoder l = Some e" "linear_wf 1 ?H e"
      using gat_layer_wfD(9) [OF wf] by blast
    have "is_num (adj ! i ! j)" using finite_matD(4) [OF adj i j] .
    then have fe: "list_all is_num (linear_apply e [adj ! i ! j])"
      by (intro linear_apply_finite [OF e(2)]) simp
    have le: "length (linear_apply e [adj ! i ! j]) = ?H" by (rule linear_apply_length [OF e(2)])
    have "is_num (linear_apply e [adj ! i ! j] ! k)" using fe le k by (simp add: list_all_length)
    then show ?thesis using True a e le k by (simp add: is_num_fadd)
  qed
  have "gat_scores l x adj ! i ! j ! k =
          (if fgt (adj ! i ! j) (Num 0) then ?attn' else map (\<lambda>_. NegInf) ?attn') ! k"
    using i j len by (simp add: gat_scores_def Let_def)
  then show ?thesis using a' k by (auto split: if_splits)
qed

lemma leaky_relu_cases:
  "0 < a \<Longrightarrow> is_num v \<Longrightarrow> is_num (leaky_relu a v)"
  "0 < a \<Longrightarrow> leaky_relu a NegInf = NegInf"
  by (auto simp: leaky_relu_def is_num_iff)

lemma gat_attention_nth:
  "i < length x \<Longrightarrow> j < length x \<Longrightarrow> k < nat (heads l) \<Longrightarrow>
   gat_attention l x adj ! i ! j ! k =
     softmax (map (\<lambda>j'. leaky_relu (alpha l) (gat_scores l x adj ! i ! j' ! k)) [0..<length x]) ! j"
  by (simp add: gat_attention_def Let_def)

lemma gat_attention_row:
  assumes wf: "gat_layer_wf n_in n_out l" and x: "finite_mat N n_in x"
    and adj: "finite_mat N N adj" and i: "i < N" and k: "k < nat (heads l)"
  shows "if \<exists>j<N. fgt (adj ! i ! j) (Num 0)
         then (\<forall>j<N. is_num (gat_attention l x adj ! i ! j ! k))
              \<and> fsum (map (\<lambda>j. gat_attention l x adj ! i ! j ! k) [0..<N]) = Num 1
         else (\<forall>j<N. gat_attention l x adj ! i ! j ! k = NaN)"
proof -
  have len: "length x = N" using x by (auto dest: finite_matD)
  have al: "0 < alpha l" by (rule gat_layer_wfD(1) [OF wf])
  let ?xs = "map (\<lambda>j'. leaky_relu (alpha l) (gat_scores l x adj ! i ! j' ! k)) [0..<N]"
  have att: "\<And>j. j < N \<Longrightarrow> gat_attention l x adj ! i ! j ! k = softmax ?xs ! j"
    using gat_attention_nth [of i x _ k l adj] i k len by simp
  have sc1: "\<And>j. j < N \<Longrightarrow> fgt (adj ! i ! j) (Num 0) \<Longrightarrow>
                is_num (leaky_relu (alpha l) (gat_scores l x adj ! i ! j ! k))"
    using gat_scores_nth [OF wf x adj i _ k] leaky_relu_cases(1) [OF al] by (auto split: if_splits)
  have sc2: "\<And>j. j < N \<Longrightarrow> \<not> fgt (adj ! i ! j) (Num 0) \<Longrightarrow>
                leaky_relu (alpha l) (gat_scores l x adj ! i ! j ! k) = NegInf"
    using gat_scores_nth [OF wf x adj i _ k] leaky_relu_cases(2) [OF al] by (auto split: if_splits)
  have lsm: "length (softmax ?xs) = N" by (simp add: length_softmax)
  have whole: "map (\<lambda>j. gat_attention l x adj ! i ! j ! k) [0..<N] = softmax ?xs"
    using att lsm by (intro nth_equalityI) auto
  show ?thesis
  proof (cases "\<exists>j<N. fgt (adj ! i ! j) (Num 0)")
    case True
    have "\<And>j. j < N \<Longrightarrow>
            leaky_relu (alpha l) (gat_scores l x adj ! i ! j ! k) = NegInf
            \<or> is_num (leaky_relu (alpha l) (gat_scores l x adj ! i ! j ! k))"
      using sc1 sc2 by blast
    then have ok: "\<forall>v\<in>set ?xs. v = NegInf \<or> is_num v"
      by auto
    from True obtain j where j: "j < N" "fgt (adj ! i ! j) (Num 0)" by blast
    then have "is_num (leaky_relu (alpha l) (gat_scores l x adj ! i ! j ! k))"
      using sc1 [of j] by simp
    then have ex: "\<exists>v\<in>set ?xs. is_num v" using j(1) by auto
    have "list_all is_num (softmax ?xs)" by (rule softmax_finite(1) [OF ok ex])
    then have "\<forall>j<N. is_num (softmax ?xs ! j)" using lsm by (simp add: list_all_length)
    moreover have "fsum (softmax ?xs) = Num 1" by (rule softmax_finite(2) [OF ok ex])
    ultimately show ?thesis using True att whole by simp
  next
    case False
    then have all: "\<forall>v\<in>set ?xs. v = NegInf" using sc2 by auto
    have ne: "?xs \<noteq> []" using i by auto
    have "softmax ?xs = map (\<lambda>_. NaN) ?xs" by (rule softmax_masked [OF ne all])
    then have "\<forall>j<N. gat_attention l x adj ! i ! j ! k = NaN" using att by simp
    then show ?thesis using False by (simp only: if_False)
  qed
qed

section \<open>Normalised attention weights\<close>

text \<open>
  C3.  For a well-formed layer with positive leaky slope and finite inputs, fix a
  destination node \<open>i\<close> and a head \<open>k\<close>.  If the node has a source with positive
  adjacency and every value computed on the way to the unmasked scores of the row stays
  in the range of the floating-point format (\<open>scores_in_range\<close>), the attention weights
  over the sources sum to 1: exactly in the arithmetic of the model, up to rounding in the
  program.  If the node has no such source, the code has no policy of its own: every
  weight of the row is NaN, and so is their sum, whatever the magnitude of the inputs.
\<close>

theorem attention_weights_sum_to_one:
  assumes "gat_layer_wf n_in n_out l" and "finite_mat N n_in x" and "finite_mat N N adj"
    and "i < N" and "k < nat (heads l)"
  shows "if \<exists>j<N. fgt (adj ! i ! j) (Num 0)
         then scores_in_range l x adj i k \<longrightarrow>
              fsum (map (\<lambda>j. gat_attention l x adj ! i ! j ! k) [0..<N]) = Num 1
         else (\<forall>j<N. gat_attention l x adj ! i ! j ! k = NaN)
              \<and> fsum (map (\<lambda>j. gat_attention l x adj ! i ! j ! k) [0..<N]) = NaN"
proof (cases "\<exists>j<N. fgt (adj ! i ! j) (Num 0)")
  case True
  then show ?thesis using gat_attention_row [OF assms] by simp
next
  case False
  then have nan: "\<forall>j<N. gat_attention l x adj ! i ! j ! k = NaN"
    using gat_attention_row [OF assms] by (simp only: if_False)
  then have "NaN \<in> set (map (\<lambda>j. gat_attention l x adj ! i ! j ! k) [0..<N])"
    using \<open>i < N\<close> by (auto simp: image_iff intro!: bexI [of _ i])
  then have "fsum (map (\<lambda>j. gat_attention l x adj ! i ! j ! k) [0..<N]) = NaN"
    by (rule fsum_NaN)
  then show ?thesis using False nan by (simp only: if_False simp_thms)
qed

lemma example_layer_wf: "gat_layer_wf 1 1 example_layer"
  by (simp add: gat_layer_wf_def linear_wf_def finite_mat_def example_layer_def)

lemma upt_2: "[0..<2] = [0, Suc 0]"
  by (simp add: upt_rec)

lemma example_scores_in_range:
  "scores_in_range example_layer [[Num 1], [Num 2]] [[Num 1, Num 0], [Num 0, Num 0]] 0 0"
  by (simp add: scores_in_range_def Let_def gat_h_def view_heads_def linear_apply_def dot_def
      fsum_def example_layer_def linear_in_range_def dot_in_range_def in_float_range_def
      float_max_def gat_scores_def leaky_relu_def upt_2)

text \<open>The range condition excludes features whose scores overflow: with a feature of
  \<open>3e38\<close> the sum of the two attention terms exceeds \<open>float_max\<close>.\<close>

lemma overflow_not_in_range:
  "\<not> scores_in_range example_layer [[Num (3 * 10 ^ 38)]] [[Num 1]] 0 0"
  by (simp add: scores_in_range_def Let_def gat_h_def view_heads_def linear_apply_def dot_def
      fsum_def example_layer_def linear_in_range_def dot_in_range_def in_float_range_def
      float_max_def gat_scores_def leaky_relu_def)

theorem attention_weights_sum_to_one_witness:
  "fsum (map (\<lambda>j. gat_attention example_layer [[Num 1], [Num 2]]
                     [[Num 1, Num 0], [Num 0, Num 0]] ! 0 ! j ! 0) [0..<2]) = Num 1
   \<and> fsum (map (\<lambda>j. gat_attention example_layer [[Num 1], [Num 2]]
                       [[Num 1, Num 0], [Num 0, Num 0]] ! 1 ! j ! 0) [0..<2]) = NaN"
proof -
  let ?x = "[[Num 1], [Num 2]]" and ?adj = "[[Num 1, Num 0], [Num 0, Num 0]]"
  have x: "finite_mat 2 1 ?x" and adj: "finite_mat 2 2 ?adj"
    by (simp_all add: finite_mat_def)
  have k: "0 < nat (heads example_layer)" by (simp add: example_layer_def)
  have zero: "(0::nat) < 2" and one: "(1::nat) < 2" by simp_all
  have pos: "\<exists>j<2. fgt (?adj ! 0 ! j) (Num 0)" by (rule exI [of _ 0]) simp
  have neg: "\<not> (\<exists>j<2. fgt (?adj ! 1 ! j) (Num 0))"
  proof
    assume "\<exists>j<2. fgt (?adj ! 1 ! j) (Num 0)"
    then obtain j :: nat where j: "j < 2" "fgt (?adj ! 1 ! j) (Num 0)" by blast
    from j(1) have "j = 0 \<or> j = 1" by auto
    then show False using j(2) by auto
  qed
  have "scores_in_range example_layer ?x ?adj 0 0 \<longrightarrow>
        fsum (map (\<lambda>j. gat_attention example_layer ?x ?adj ! 0 ! j ! 0) [0..<2]) = Num 1"
    using attention_weights_sum_to_one [OF example_layer_wf x adj zero k] pos
    by (simp only: if_True)
  then have "fsum (map (\<lambda>j. gat_attention example_layer ?x ?adj ! 0 ! j ! 0) [0..<2]) = Num 1"
    using example_scores_in_range by blast
  moreover have "fsum (map (\<lambda>j. gat_attention example_layer ?x ?adj ! 1 ! j ! 0) [0..<2]) = NaN"
    using attention_weights_sum_to_one [OF example_layer_wf x adj one k] neg
    by (simp only: if_False)
  ultimately show ?thesis by blast
qed

text \<open>The claim as stated fails on a single node without a self-edge: the sum of its
  attention weights is neither 1 nor 0.\<close>

theorem attention_weights_masked_counterexample:
  "\<not> (fsum (map (\<lambda>j. gat_attention example_layer [[Num 1]] [[Num 0]] ! 0 ! j ! 0) [0..<1]) = Num 1
      \<or> fsum (map (\<lambda>j. gat_attention example_layer [[Num 1]] [[Num 0]] ! 0 ! j ! 0) [0..<1]) = Num 0)"
  by (simp add: example_layer_def gat_attention_def gat_scores_def gat_h_def view_heads_def
      linear_apply_def dot_def fsum_def Let_def softmax_def leaky_relu_def fmax_list_def
      fmax_def fsub_def)

section \<open>Aggregation, residual and head fusion\<close>

lemma F_dropout_cases:
  "is_num v \<Longrightarrow> is_num (F_dropout p t kp v)"
  "F_dropout p t kp NaN = NaN"
  by (auto simp: F_dropout_def is_num_iff)

lemma gelu_cases:
  "is_num v \<Longrightarrow> is_num (gelu v)"
  "gelu NaN = NaN"
  by (cases v) (simp_all add: gelu_def)

lemma length_concat_grid:
  "length (concat (map (\<lambda>k. map (g k) [0..<D]) [0..<H])) = H * D"
  by (induction H) auto

lemma gat_aggregate_nth:
  "i < length x \<Longrightarrow>
   gat_aggregate l rng x adj ! i =
     concat (map (\<lambda>k. map (\<lambda>d.
       fsum (map (\<lambda>j. fmul (F_dropout (dropout l) (training l) (attn_keep rng i j k)
                               (gat_attention l x adj ! i ! j ! k))
                         (gat_h l x ! j ! k ! d)) [0..<length x]))
       [0..<nat (out_features_per_head l)]) [0..<nat (heads l)])"
  unfolding gat_aggregate_def Let_def
  apply simp
  apply (rule arg_cong [where f = concat])
  apply (rule map_cong [OF refl])
  apply (rule map_cong [OF refl])
  apply (rule arg_cong [where f = fsum])
  apply (rule map_cong [OF refl])
  apply simp
  done

lemma gat_aggregate_length: "length (gat_aggregate l rng x adj) = length x"
  by (simp add: gat_aggregate_def Let_def)

lemma gat_aggregate_row:
  assumes wf: "gat_layer_wf n_in n_out l" and x: "finite_mat N n_in x"
    and adj: "finite_mat N N adj" and i: "i < N"
  shows "length (gat_aggregate l rng x adj ! i) = n_out"
    and "if \<exists>j<N. fgt (adj ! i ! j) (Num 0)
         then list_all is_num (gat_aggregate l rng x adj ! i)
         else list_all (\<lambda>v. v = NaN) (gat_aggregate l rng x adj ! i)"
proof -
  let ?H = "nat (heads l)" and ?D = "nat (out_features_per_head l)"
  have len: "length x = N" using x by (auto dest: finite_matD)
  have n: "n_out = ?H * ?D" by (rule gat_layer_wfD(2) [OF wf])
  note row = gat_aggregate_nth [of i x l rng adj]
  show "length (gat_aggregate l rng x adj ! i) = n_out"
    using i len by (simp add: row n length_concat_grid)
  let ?tm = "\<lambda>k d j. fmul (F_dropout (dropout l) (training l) (attn_keep rng i j k)
                               (gat_attention l x adj ! i ! j ! k))
                         (gat_h l x ! j ! k ! d)"
  have hnum: "\<And>j k d. j < N \<Longrightarrow> k < ?H \<Longrightarrow> d < ?D \<Longrightarrow> is_num (gat_h l x ! j ! k ! d)"
    using gat_h_nth(2,3) [OF wf x] by (simp add: list_all_length)
  show "if \<exists>j<N. fgt (adj ! i ! j) (Num 0)
         then list_all is_num (gat_aggregate l rng x adj ! i)
         else list_all (\<lambda>v. v = NaN) (gat_aggregate l rng x adj ! i)"
  proof (cases "\<exists>j<N. fgt (adj ! i ! j) (Num 0)")
    case True
    have "\<And>k d. k < ?H \<Longrightarrow> d < ?D \<Longrightarrow> is_num (fsum (map (?tm k d) [0..<N]))"
    proof -
      fix k d assume k: "k < ?H" and d: "d < ?D"
      have "\<forall>j<N. is_num (gat_attention l x adj ! i ! j ! k)"
        using gat_attention_row [OF wf x adj i k] True by simp
      then have "list_all is_num (map (?tm k d) [0..<N])"
        using hnum k d by (simp add: list_all_iff is_num_fmul F_dropout_cases)
      then show "is_num (fsum (map (?tm k d) [0..<N]))" by (rule is_num_fsum)
    qed
    then have "list_all is_num (gat_aggregate l rng x adj ! i)"
      using i len by (simp add: row list_all_iff)
    then show ?thesis using True by simp
  next
    case False
    have "\<And>k d. k < ?H \<Longrightarrow> d < ?D \<Longrightarrow> fsum (map (?tm k d) [0..<N]) = NaN"
    proof -
      fix k d assume k: "k < ?H" and d: "d < ?D"
      have "\<forall>j<N. gat_attention l x adj ! i ! j ! k = NaN"
        using gat_attention_row [OF wf x adj i k] False by (simp only: if_False)
      then have "?tm k d i = NaN" using i by (simp add: F_dropout_cases)
      then have "NaN \<in> set (map (?tm k d) [0..<N])"
        using i by (metis (no_types, lifting) atLeastLessThan_iff image_eqI list.set_map
            set_upt zero_le)
      then show "fsum (map (?tm k d) [0..<N]) = NaN" by (rule fsum_NaN)
    qed
    then have "list_all (\<lambda>v. v = NaN) (gat_aggregate l rng x adj ! i)"
      using i len by (simp add: row list_all_iff)
    then show ?thesis using False by (simp only: if_False)
  qed
qed


lemma dot_NaN:
  assumes "list_all (\<lambda>v. v = NaN) r" and "r \<noteq> []" and "w \<noteq> []"
  shows "dot r w = NaN"
proof -
  obtain a r' where r: "r = a # r'" using assms(2) by (cases r) auto
  obtain b w' where w: "w = b # w'" using assms(3) by (cases w) auto
  have "a = NaN" using assms(1) r by simp
  then show ?thesis by (simp add: dot_def r w fsum_Cons)
qed

lemma linear_apply_NaN:
  assumes lw: "linear_wf n n_out l" and r: "list_all (\<lambda>v. v = NaN) r" and len: "length r = n"
    and pos: "0 < n"
  shows "list_all (\<lambda>v. v = NaN) (linear_apply l r)"
proof -
  have rne: "r \<noteq> []" using len pos by auto
  have "\<forall>w\<in>set (weight l). w \<noteq> []"
    using lw pos by (auto simp: linear_wf_def finite_mat_def list_all_iff)
  then have d: "\<forall>w\<in>set (weight l). dot r w = NaN"
    using dot_NaN [OF r rne] by blast
  show ?thesis
  proof (cases "bias l")
    case None
    then show ?thesis using d by (simp add: linear_apply_def list_all_iff)
  next
    case (Some b)
    then show ?thesis using d
      by (auto simp: linear_apply_def list_all_iff elim!: in_set_zipE)
  qed
qed

lemma fuse_heads_length:
  "linear_wf n n_out (head_fusion l) \<Longrightarrow> length (fuse_heads l rng i r) = n_out"
  by (simp add: fuse_heads_def Let_def linear_apply_length)

lemma fuse_heads_finite:
  assumes "linear_wf n n_out (head_fusion l)" and "list_all is_num r"
  shows "list_all is_num (fuse_heads l rng i r)"
proof -
  have "list_all is_num (linear_apply (head_fusion l) r)"
    by (rule linear_apply_finite [OF assms])
  then show ?thesis
    by (simp add: fuse_heads_def Let_def list_all_length F_dropout_cases gelu_cases)
qed

lemma fuse_heads_NaN:
  assumes "linear_wf n n_out (head_fusion l)" and "list_all (\<lambda>v. v = NaN) r"
    and "length r = n" and "0 < n"
  shows "list_all (\<lambda>v. v = NaN) (fuse_heads l rng i r)"
proof -
  have "list_all (\<lambda>v. v = NaN) (linear_apply (head_fusion l) r)"
    by (rule linear_apply_NaN [OF assms])
  then show ?thesis
    by (simp add: fuse_heads_def Let_def list_all_length F_dropout_cases gelu_cases)
qed

lemma gat_forward_rows:
  assumes wf: "gat_layer_wf n_in n_out l" and res: "res_fc l = Some fc"
    and x: "finite_mat N n_in x" and adj: "finite_mat N N adj"
  shows "\<exists>y. WeightedMultiHeadGAT_forward l rng x adj = Inr y \<and> length y = N
           \<and> (\<forall>i<N. length (y ! i) = n_out
                 \<and> (if \<exists>j<N. fgt (adj ! i ! j) (Num 0)
                    then list_all is_num (y ! i)
                    else list_all (\<lambda>v. v = NaN) (y ! i)))"
proof -
  let ?agg = "gat_aggregate l rng x adj"
  let ?y = "map (\<lambda>i. fuse_heads l rng i (map2 fadd (?agg ! i) (linear_apply fc (x ! i))))
              [0..<length x]"
  have len: "length x = N" using x by (auto dest: finite_matD)
  have fw: "WeightedMultiHeadGAT_forward l rng x adj = Inr ?y"
    by (simp add: WeightedMultiHeadGAT_forward_def get_res_fc_def res Let_def)
  have hf: "linear_wf n_out n_out (head_fusion l)" by (rule gat_layer_wfD(6) [OF wf])
  have fcw: "linear_wf n_in n_out fc" by (rule gat_layer_wfD(10) [OF wf res])
  have pos: "0 < n_out" by (rule gat_layer_wfD(3) [OF wf])
  have rows: "\<forall>i<N. length (?y ! i) = n_out
                 \<and> (if \<exists>j<N. fgt (adj ! i ! j) (Num 0)
                    then list_all is_num (?y ! i)
                    else list_all (\<lambda>v. v = NaN) (?y ! i))"
  proof (intro allI impI)
    fix i assume i: "i < N"
    let ?r = "map2 fadd (?agg ! i) (linear_apply fc (x ! i))"
    have yi: "?y ! i = fuse_heads l rng i ?r" using i len by simp
    have la: "length (?agg ! i) = n_out" by (rule gat_aggregate_row(1) [OF wf x adj i])
    have lr: "length (linear_apply fc (x ! i)) = n_out" by (rule linear_apply_length [OF fcw])
    have lenr: "length ?r = n_out" using la lr by simp
    have fr: "list_all is_num (linear_apply fc (x ! i))"
      using finite_matD(3) [OF x i] by (rule linear_apply_finite [OF fcw])
    have body: "if \<exists>j<N. fgt (adj ! i ! j) (Num 0)
                then list_all is_num (?y ! i) else list_all (\<lambda>v. v = NaN) (?y ! i)"
    proof (cases "\<exists>j<N. fgt (adj ! i ! j) (Num 0)")
      case True
      then have "list_all is_num (?agg ! i)"
        using gat_aggregate_row(2) [OF wf x adj i, of rng] by simp
      then have "list_all is_num ?r" using fr
        by (intro list_all_map2_num is_num_fadd)
      then have "list_all is_num (?y ! i)"
        unfolding yi by (rule fuse_heads_finite [OF hf])
      then show ?thesis using True by simp
    next
      case False
      then have "list_all (\<lambda>v. v = NaN) (?agg ! i)"
        using gat_aggregate_row(2) [OF wf x adj i, of rng] by (simp only: if_False)
      then have "list_all (\<lambda>v. v = NaN) ?r"
        by (auto simp: list_all_iff elim!: in_set_zipE)
      then have "list_all (\<lambda>v. v = NaN) (?y ! i)"
        unfolding yi by (rule fuse_heads_NaN [OF hf _ lenr pos])
      then show ?thesis using False by (simp only: if_False)
    qed
    show "length (?y ! i) = n_out
            \<and> (if \<exists>j<N. fgt (adj ! i ! j) (Num 0)
               then list_all is_num (?y ! i) else list_all (\<lambda>v. v = NaN) (?y ! i))"
      using body yi fuse_heads_length [OF hf] by simp
  qed
  have "length ?y = N" using len by simp
  with fw rows show ?thesis by blast
qed

section \<open>Output of a node without valid edges\<close>

text \<open>
  C2.  For a well-formed layer with a residual projection, positive leaky slope and
  finite inputs, \<open>forward\<close> returns one row of \<open>out_features\<close> values per node, and
  for a node whose mask row is entirely false the code defines no result of its own: the
  NaN of the softmax over a row of negative infinities reaches every component of the
  node's output.
\<close>

theorem gat_forward_masked_row:
  assumes "gat_layer_wf n_in n_out l" and "res_fc l = Some fc"
    and "finite_mat N n_in x" and "finite_mat N N adj" and "i < N"
    and "\<not> (\<exists>j<N. fgt (adj ! i ! j) (Num 0))"
  shows "\<exists>y. WeightedMultiHeadGAT_forward l rng x adj = Inr y \<and> length y = N
           \<and> length (y ! i) = n_out \<and> list_all (\<lambda>v. v = NaN) (y ! i)"
proof -
  from gat_forward_rows [OF assms(1-4), of rng]
  obtain y where y: "WeightedMultiHeadGAT_forward l rng x adj = Inr y" "length y = N"
    and rows: "\<forall>i<N. length (y ! i) = n_out
                 \<and> (if \<exists>j<N. fgt (adj ! i ! j) (Num 0)
                    then list_all is_num (y ! i)
                    else list_all (\<lambda>v. v = NaN) (y ! i))"
    by blast
  from rows assms(5) have "length (y ! i) = n_out"
    and "if \<exists>j<N. fgt (adj ! i ! j) (Num 0)
         then list_all is_num (y ! i) else list_all (\<lambda>v. v = NaN) (y ! i)"
    by blast+
  with assms(6) have "length (y ! i) = n_out \<and> list_all (\<lambda>v. v = NaN) (y ! i)"
    by (simp only: if_False simp_thms)
  with y show ?thesis by blast
qed

theorem gat_forward_masked_row_witness:
  "\<exists>y. WeightedMultiHeadGAT_forward example_layer keep_all [[Num 1], [Num 2]]
          [[Num 1, Num 0], [Num 0, Num 0]] = Inr y
       \<and> length y = 2 \<and> y ! 1 = [NaN]"
proof -
  let ?x = "[[Num 1], [Num 2]]" and ?adj = "[[Num 1, Num 0], [Num 0, Num 0]]"
  have x: "finite_mat 2 1 ?x" and adj: "finite_mat 2 2 ?adj"
    by (simp_all add: finite_mat_def)
  have res: "res_fc example_layer = Some \<lparr> weight = [[Num 1]], bias = Some [Num 0] \<rparr>"
    by (simp add: example_layer_def)
  have neg: "\<not> (\<exists>j<2. fgt (?adj ! 1 ! j) (Num 0))"
  proof
    assume "\<exists>j<2. fgt (?adj ! 1 ! j) (Num 0)"
    then obtain j :: nat where j: "j < 2" "fgt (?adj ! 1 ! j) (Num 0)" by blast
    from j(1) have "j = 0 \<or> j = 1" by auto
    then show False using j(2) by auto
  qed
  have one: "(1::nat) < 2" by simp
  from gat_forward_masked_row [OF example_layer_wf res x adj one neg, of keep_all]
  obtain y where y: "WeightedMultiHeadGAT_forward example_layer keep_all ?x ?adj = Inr y"
    and ly: "length y = 2"
    and y1: "length (y ! 1) = 1" "list_all (\<lambda>v. v = NaN) (y ! 1)"
    by blast
  from y1 have "y ! 1 = [NaN]" by (cases "y ! 1") auto
  with y ly show ?thesis by blast
qed

text \<open>The claim as stated fails on a single node without a self-edge: its output is NaN.\<close>

theorem gat_forward_masked_counterexample:
  "WeightedMultiHeadGAT_forward example_layer keep_all [[Num 1]] [[Num 0]] = Inr [[NaN]]"
  by (simp add: example_layer_def keep_all_def WeightedMultiHeadGAT_forward_def
      gat_aggregate_def fuse_heads_def get_res_fc_def gat_attention_def gat_scores_def
      gat_h_def view_heads_def linear_apply_def dot_def fsum_def Let_def softmax_def
      leaky_relu_def fmax_list_def fmax_def fsub_def F_dropout_def gelu_def)

section \<open>Cosine similarity of finite vectors\<close>

lemma dot_Num_ip: "dot (map Num a) (map Num b) = Num (ip a b)"
  by (simp add: dot_Num ip_def)

lemma ip_commute: "ip a b = ip b a"
proof -
  have "map2 (*) a b = map2 (*) b (a :: real list)"
    by (induction a b rule: list_induct2') (auto simp: mult.commute)
  then show ?thesis by (simp add: ip_def)
qed

lemma ip_Cons: "ip (x # a) (y # b) = x * y + ip a b"
  by (simp add: ip_def)

lemma ip_self_nonneg: "0 \<le> ip a a"
  by (induction a) (auto simp: ip_def)


lemma Cauchy_Schwarz_step:
  fixes x y s A B :: real
  assumes s: "s\<^sup>2 \<le> A * B" and A: "0 \<le> A" and B: "0 \<le> B"
  shows "(x * y + s)\<^sup>2 \<le> (x * x + A) * (y * y + B)"
proof -
  let ?p = "\<bar>x\<bar> * sqrt B" and ?q = "\<bar>y\<bar> * sqrt A"
  have "\<bar>s\<bar> \<le> sqrt (A * B)" using s by (metis real_sqrt_abs real_sqrt_le_mono)
  then have sb: "\<bar>s\<bar> \<le> sqrt A * sqrt B" by (simp add: real_sqrt_mult)
  have "0 \<le> (?p - ?q)\<^sup>2" by simp
  then have pq: "2 * ?p * ?q \<le> ?p\<^sup>2 + ?q\<^sup>2" by (simp add: power2_diff)
  have "?p\<^sup>2 = \<bar>x\<bar>\<^sup>2 * (sqrt B)\<^sup>2" by (rule power_mult_distrib)
  then have p2: "?p\<^sup>2 = x * x * B" using B by (simp add: power2_eq_square [of x])
  have "?q\<^sup>2 = \<bar>y\<bar>\<^sup>2 * (sqrt A)\<^sup>2" by (rule power_mult_distrib)
  then have q2: "?q\<^sup>2 = y * y * A" using A by (simp add: power2_eq_square [of y])
  have "x * y * s \<le> \<bar>x * y * s\<bar>" by simp
  also have "\<dots> = \<bar>x\<bar> * \<bar>y\<bar> * \<bar>s\<bar>" by (simp add: abs_mult)
  also have "\<dots> \<le> \<bar>x\<bar> * \<bar>y\<bar> * (sqrt A * sqrt B)"
    using sb by (intro mult_left_mono) auto
  also have "\<dots> = ?p * ?q" by simp
  finally have "2 * (x * y * s) \<le> 2 * ?p * ?q" by simp
  with pq have cross: "2 * (x * y * s) \<le> x * x * B + y * y * A" by (simp add: p2 q2)
  have "(x * y + s)\<^sup>2 = x * x * (y * y) + 2 * (x * y * s) + s\<^sup>2"
    by (simp add: power2_eq_square algebra_simps)
  also have "\<dots> \<le> x * x * (y * y) + (x * x * B + y * y * A) + A * B"
    using cross s by simp
  also have "\<dots> = (x * x + A) * (y * y + B)" by (simp add: algebra_simps)
  finally show ?thesis .
qed

lemma Cauchy_Schwarz_list:
  "length a = length b \<Longrightarrow> (ip a b)\<^sup>2 \<le> ip a a * ip b b"
proof (induction a b rule: list_induct2)
  case Nil
  then show ?case by (simp add: ip_def)
next
  case (Cons x a y b)
  show ?case
    unfolding ip_Cons
    by (rule Cauchy_Schwarz_step [OF Cons.IH ip_self_nonneg ip_self_nonneg])
qed

lemma abs_ip_le:
  assumes "length a = length b"
  shows "\<bar>ip a b\<bar> \<le> sqrt (ip a a * ip b b)"
  using Cauchy_Schwarz_list [OF assms] by (metis real_sqrt_abs real_sqrt_le_mono)

lemma fmax_Num: "fmax (Num p) (Num q) = Num (max p q)"
  by (simp add: fmax_def max_def)

lemma norm2_Num: "norm2 (map Num a) = Num (sqrt (ip a a))"
proof -
  have "map (\<lambda>v. fmul v v) (map Num a) = map Num (map (\<lambda>r. r * r) a)" by simp
  then have "fsum (map (\<lambda>v. fmul v v) (map Num a)) = Num (sum_list (map (\<lambda>r. r * r) a))"
    by (simp only: fsum_map_Num)
  moreover have "sum_list (map (\<lambda>r. r * r) a) = ip a a"
    by (simp add: ip_def zip_same_conv_map comp_def)
  ultimately show ?thesis using ip_self_nonneg [of a] by (simp add: norm2_def)
qed

lemma sum_list_map2_scaled:
  fixes a b :: "real list"
  shows "sum_list (map2 (\<lambda>x y. (x / m) * (y / n)) a b) = sum_list (map2 (*) a b) / (m * n)"
  by (induction a b rule: list_induct2') (auto simp: add_divide_distrib)

lemma map2_scaled_Num:
  "m \<noteq> 0 \<Longrightarrow> n \<noteq> 0 \<Longrightarrow>
   map2 (\<lambda>u v. fmul (fdiv u (Num m)) (fdiv v (Num n))) (map Num a) (map Num b)
     = map Num (map2 (\<lambda>x y. (x / m) * (y / n)) a b)"
  by (induction a b rule: list_induct2') auto

lemma cosine_similarity_Num:
  "cosine_similarity impl (map Num a) (map Num b) = Num (cos_real impl a b)"
proof (cases impl)
  case ClampProduct
  have "(0::real) < (1 / 10 ^ 8) * (1 / 10 ^ 8)" by simp
  then have "0 < max (ip a a * ip b b) ((1 / 10 ^ 8) * (1 / 10 ^ 8))"
    by (rule less_max_iff_disj [THEN iffD2, OF disjI2])
  then have "max (ip a a * ip b b) ((1 / 10 ^ 8) * (1 / 10 ^ 8)) \<noteq> 0"
    and "\<not> max (ip a a * ip b b) ((1 / 10 ^ 8) * (1 / 10 ^ 8)) < 0"
    by linarith+
  then show ?thesis using ClampProduct
    by (simp add: cosine_similarity_def cos_real_def dot_Num_ip fmax_Num)
next
  case ClampEach
  let ?m = "max (sqrt (ip a a)) (1 / 10 ^ 8)" and ?n = "max (sqrt (ip b b)) (1 / 10 ^ 8)"
  have m: "0 < ?m" and n: "0 < ?n" by (simp_all add: less_max_iff_disj)
  have "map2 (\<lambda>u v. fmul (fdiv u (Num ?m)) (fdiv v (Num ?n))) (map Num a) (map Num b)
          = map Num (map2 (\<lambda>x y. (x / ?m) * (y / ?n)) a b)"
    using m n by (intro map2_scaled_Num) auto
  then have "fsum (map2 (\<lambda>u v. fmul (fdiv u (Num ?m)) (fdiv v (Num ?n))) (map Num a) (map Num b))
          = Num (ip a b / (?m * ?n))"
    by (simp only: fsum_map_Num sum_list_map2_scaled ip_def)
  then show ?thesis using ClampEach
    by (simp add: cosine_similarity_def cos_real_def norm2_Num fmax_Num Let_def)
qed

lemma cos_real_commute: "cos_real impl a b = cos_real impl b a"
  by (cases impl) (simp_all add: cos_real_def ip_commute [of a b] mult.commute)

lemma cos_real_bounds:
  assumes len: "length a = length b"
  shows "\<bar>cos_real impl a b\<bar> \<le> 1"
proof (cases impl)
  case ClampProduct
  let ?d = "sqrt (max (ip a a * ip b b) ((1 / 10 ^ 8) * (1 / 10 ^ 8)))"
  have d: "0 < ?d" by (simp add: less_max_iff_disj)
  have "\<bar>ip a b\<bar> \<le> sqrt (ip a a * ip b b)" by (rule abs_ip_le [OF len])
  also have "\<dots> \<le> ?d" by (rule real_sqrt_le_mono) simp
  finally have "\<bar>ip a b\<bar> / ?d \<le> 1" using d by simp
  then show ?thesis using ClampProduct d by (simp add: cos_real_def)
next
  case ClampEach
  let ?m = "max (sqrt (ip a a)) (1 / 10 ^ 8)" and ?n = "max (sqrt (ip b b)) (1 / 10 ^ 8)"
  have m: "0 < ?m" and n: "0 < ?n" by (simp_all add: less_max_iff_disj)
  have "\<bar>ip a b\<bar> \<le> sqrt (ip a a * ip b b)" by (rule abs_ip_le [OF len])
  also have "\<dots> = sqrt (ip a a) * sqrt (ip b b)" by (simp add: real_sqrt_mult)
  also have "\<dots> \<le> ?m * ?n" by (intro mult_mono) (auto simp: ip_self_nonneg)
  finally have "\<bar>ip a b\<bar> / (?m * ?n) \<le> 1" using m n by simp
  then show ?thesis using ClampEach m n by (simp add: cos_real_def abs_mult)
qed

lemma cos_real_self_nonneg: "0 \<le> cos_real impl a a"
  by (cases impl) (auto simp: cos_real_def ip_self_nonneg intro!: divide_nonneg_nonneg mult_nonneg_nonneg)

lemma cos_real_self_one:
  assumes "1 / 10 ^ 4 \<le> sqrt (ip a a)"
  shows "cos_real impl a a = 1"
proof -
  let ?w = "ip a a"
  have w0: "0 \<le> ?w" by (rule ip_self_nonneg)
  have "(1 / 10 ^ 4)\<^sup>2 \<le> (sqrt ?w)\<^sup>2" using assms by (intro power_mono) auto
  then have w: "1 / 10 ^ 8 \<le> ?w" using w0 by (simp add: power2_eq_square)
  have wpos: "0 < ?w" using w by (smt (verit) zero_less_divide_1_iff zero_less_power)
  show ?thesis
  proof (cases impl)
    case ClampProduct
    have "(1 / 10 ^ 8) * (1 / 10 ^ 8) \<le> ?w * ?w" using w by (intro mult_mono) auto
    then have "max (?w * ?w) ((1 / 10 ^ 8) * (1 / 10 ^ 8)) = ?w * ?w" by (simp add: max_def)
    then show ?thesis using ClampProduct wpos w0 by (simp add: cos_real_def real_sqrt_mult)
  next
    case ClampEach
    have "(1::real) / 10 ^ 8 \<le> 1 / 10 ^ 4" by simp
    then have "max (sqrt ?w) (1 / 10 ^ 8) = sqrt ?w" using assms by (simp add: max_def)
    then show ?thesis using ClampEach wpos w0 by (simp add: cos_real_def)
  qed
qed

section \<open>The adjacency matrix\<close>

lemma build_adjacency_length: "length (build_adjacency impl fs) = length fs"
  by (simp add: build_adjacency_def)

lemma build_adjacency_nth:
  "i < length fs \<Longrightarrow> j < length fs \<Longrightarrow>
   length (build_adjacency impl fs ! i) = length fs
   \<and> build_adjacency impl fs ! i ! j
       = fdiv (fadd (cosine_similarity impl (fs ! i) (fs ! j)) (Num 1)) (Num 2)"
  by (simp add: build_adjacency_def)

lemma build_adjacency_finite:
  assumes fs: "finite_mat N d fs" and i: "i < N" and j: "j < N"
  shows "build_adjacency impl fs ! i ! j
           = Num ((cos_real impl (map the_num (fs ! i)) (map the_num (fs ! j)) + 1) / 2)"
proof -
  have len: "length fs = N" using fs by (auto dest: finite_matD)
  have a: "map Num (map the_num (fs ! i)) = fs ! i"
    using finite_matD(3) [OF fs i] by (rule all_num_map_the_num)
  have b: "map Num (map the_num (fs ! j)) = fs ! j"
    using finite_matD(3) [OF fs j] by (rule all_num_map_the_num)
  have "cosine_similarity impl (fs ! i) (fs ! j)
          = Num (cos_real impl (map the_num (fs ! i)) (map the_num (fs ! j)))"
    using cosine_similarity_Num [of impl "map the_num (fs ! i)" "map the_num (fs ! j)"]
    by (simp only: a b)
  then show ?thesis using build_adjacency_nth [of i fs j impl] i j len by simp
qed



lemma norm2_the_num:
  "list_all is_num v \<Longrightarrow> norm2 v = Num (sqrt (ip (map the_num v) (map the_num v)))"
  using norm2_Num [of "map the_num v"] by (simp only: all_num_map_the_num)

text \<open>
  In the exact arithmetic of the model every entry of the adjacency matrix lies in
  [0, 1], and a diagonal entry is 1 when the norm of the embedding is at least \<open>1e-4\<close>
  (so that neither variant of the library's clamp is active).  The program's floats meet
  these two statements only up to rounding.
\<close>

lemma build_adjacency_exact_range:
  assumes "finite_mat N d features" and "i < N" and "j < N"
  shows "length (build_adjacency impl features) = N
       \<and> length (build_adjacency impl features ! i) = N
       \<and> build_adjacency impl features ! i ! j = build_adjacency impl features ! j ! i
       \<and> (\<exists>r. build_adjacency impl features ! i ! j = Num r \<and> 0 \<le> r \<and> r \<le> 1)
       \<and> (\<exists>r. build_adjacency impl features ! i ! i = Num r \<and> 1 / 2 \<le> r)
       \<and> (1 / 10 ^ 4 \<le> the_num (norm2 (features ! i))
            \<longrightarrow> build_adjacency impl features ! i ! i = Num 1)"
proof -
  let ?a = "map the_num (features ! i)" and ?b = "map the_num (features ! j)"
  have len: "length features = N" using assms(1) by (auto dest: finite_matD)
  have lab: "length ?a = length ?b"
    using finite_matD(2) [OF assms(1)] assms(2,3) by simp
  note ij = build_adjacency_finite [OF assms(1) assms(2) assms(3), of impl]
  note ji = build_adjacency_finite [OF assms(1) assms(3) assms(2), of impl]
  note ii = build_adjacency_finite [OF assms(1) assms(2) assms(2), of impl]
  have sym: "build_adjacency impl features ! i ! j = build_adjacency impl features ! j ! i"
    by (simp add: ij ji cos_real_commute [of impl ?a ?b])
  have "\<bar>cos_real impl ?a ?b\<bar> \<le> 1" by (rule cos_real_bounds [OF lab])
  then have "0 \<le> (cos_real impl ?a ?b + 1) / 2 \<and> (cos_real impl ?a ?b + 1) / 2 \<le> 1"
    by (simp add: abs_le_iff)
  then have rng: "\<exists>r. build_adjacency impl features ! i ! j = Num r \<and> 0 \<le> r \<and> r \<le> 1"
    unfolding ij by blast
  have "1 / 2 \<le> (cos_real impl ?a ?a + 1) / 2"
    using cos_real_self_nonneg [of impl ?a] by simp
  then have diag: "\<exists>r. build_adjacency impl features ! i ! i = Num r \<and> 1 / 2 \<le> r"
    unfolding ii by blast
  have one: "1 / 10 ^ 4 \<le> the_num (norm2 (features ! i))
            \<longrightarrow> build_adjacency impl features ! i ! i = Num 1"
  proof
    assume "1 / 10 ^ 4 \<le> the_num (norm2 (features ! i))"
    then have "1 / 10 ^ 4 \<le> sqrt (ip ?a ?a)"
      using norm2_the_num [OF finite_matD(3) [OF assms(1) assms(2)]] by simp
    then have "cos_real impl ?a ?a = 1" by (rule cos_real_self_one)
    then show "build_adjacency impl features ! i ! i = Num 1" by (simp add: ii)
  qed
  have l1: "length (build_adjacency impl features) = N"
    by (simp add: build_adjacency_length len)
  have l2: "length (build_adjacency impl features ! i) = N"
    using build_adjacency_nth [of i features i impl] assms(2) len by simp
  from l1 l2 sym rng diag one show ?thesis by blast
qed





section \<open>Norm of the embeddings\<close>


lemma F_normalize_nth:
  "i < length y \<Longrightarrow>
   F_normalize y ! i = map (\<lambda>a. fdiv a (fmax (norm2 (y ! i)) (Num (1 / 10 ^ 12)))) (y ! i)"
  by (simp add: F_normalize_def Let_def)

lemma F_normalize_row_Num:
  "map (\<lambda>v. fdiv v (fmax (norm2 (map Num a)) (Num (1 / 10 ^ 12)))) (map Num a)
     = map Num (map (\<lambda>r. r / max (sqrt (ip a a)) (1 / 10 ^ 12)) a)"
proof -
  have "(0::real) < 1 / 10 ^ 12" by simp
  then have "0 < max (sqrt (ip a a)) (1 / 10 ^ 12)"
    by (rule less_max_iff_disj [THEN iffD2, OF disjI2])
  then have "max (sqrt (ip a a)) (1 / 10 ^ 12) \<noteq> 0" by linarith
  then show ?thesis by (simp add: norm2_Num fmax_Num)
qed







section \<open>The attention stage on the adjacency of the pipeline\<close>

lemma gat_forward_finite:
  assumes wf: "gat_layer_wf n_in n_out l" and res: "res_fc l \<noteq> None"
    and x: "finite_mat N n_in x" and adj: "finite_mat N N adj"
    and pos: "\<forall>i<N. \<exists>j<N. fgt (adj ! i ! j) (Num 0)"
  shows "\<exists>y. WeightedMultiHeadGAT_forward l rng x adj = Inr y \<and> finite_mat N n_out y"
proof -
  from res obtain fc where fc: "res_fc l = Some fc" by auto
  from gat_forward_rows [OF wf fc x adj, of rng] obtain y where
    y: "WeightedMultiHeadGAT_forward l rng x adj = Inr y" "length y = N"
    and rows: "\<forall>i<N. length (y ! i) = n_out
                 \<and> (if \<exists>j<N. fgt (adj ! i ! j) (Num 0)
                    then list_all is_num (y ! i)
                    else list_all (\<lambda>v. v = NaN) (y ! i))"
    by blast
  have "\<And>i. i < N \<Longrightarrow> length (y ! i) = n_out \<and> list_all is_num (y ! i)"
  proof -
    fix i assume i: "i < N"
    then have "\<exists>j<N. fgt (adj ! i ! j) (Num 0)" using pos by blast
    then show "length (y ! i) = n_out \<and> list_all is_num (y ! i)" using rows i by simp
  qed
  then have "finite_mat N n_out y" using y(2) by (intro finite_matI) auto
  with y(1) show ?thesis by blast
qed

lemma forward_layers_finite:
  assumes adj: "finite_mat N N adj" and pos: "\<forall>i<N. \<exists>j<N. fgt (adj ! i ! j) (Num 0)"
  shows "gat_stack_wf n ls \<Longrightarrow> finite_mat N n x \<Longrightarrow>
         \<exists>y. forward_layers ls rng k x adj = Inr y \<and> finite_mat N (gat_stack_out n ls) y"
proof (induction ls arbitrary: n x k)
  case Nil
  then show ?case by simp
next
  case (Cons l ls)
  let ?m = "nat (heads l) * nat (out_features_per_head l)"
  from Cons.prems(1) have wf: "gat_layer_wf n ?m l" and res: "res_fc l \<noteq> None"
    and rest: "gat_stack_wf ?m ls" by simp_all
  from gat_forward_finite [OF wf res Cons.prems(2) adj pos, of "rng k"] obtain y where
    y: "WeightedMultiHeadGAT_forward l (rng k) x adj = Inr y" "finite_mat N ?m y" by blast
  from Cons.IH [OF rest y(2), of "Suc k"] obtain z where
    "forward_layers ls rng (Suc k) y adj = Inr z" "finite_mat N (gat_stack_out ?m ls) z"
    by blast
  then show ?case using y(1) by simp
qed

lemma build_adjacency_finite_mat:
  assumes fs: "finite_mat N d fs"
  shows "finite_mat N N (build_adjacency impl fs)"
    and "\<forall>i<N. \<exists>j<N. fgt (build_adjacency impl fs ! i ! j) (Num 0)"
proof -
  have len: "length fs = N" using fs by (auto dest: finite_matD)
  show "finite_mat N N (build_adjacency impl fs)"
  proof (rule finite_matI)
    show "length (build_adjacency impl fs) = N" by (simp add: build_adjacency_length len)
  next
    fix i assume i: "i < N"
    have l: "length (build_adjacency impl fs ! i) = N"
      using build_adjacency_nth [of i fs i impl] i len by simp
    have "\<forall>j<N. is_num (build_adjacency impl fs ! i ! j)"
      using build_adjacency_finite [OF fs i, of _ impl] by simp
    then show "length (build_adjacency impl fs ! i) = N
                 \<and> list_all is_num (build_adjacency impl fs ! i)"
      using l by (simp add: list_all_length)
  qed
  show "\<forall>i<N. \<exists>j<N. fgt (build_adjacency impl fs ! i ! j) (Num 0)"
  proof (intro allI impI)
    fix i assume i: "i < N"
    have "0 \<le> cos_real impl (map the_num (fs ! i)) (map the_num (fs ! i))"
      by (rule cos_real_self_nonneg)
    then have "fgt (build_adjacency impl fs ! i ! i) (Num 0)"
      by (simp add: build_adjacency_finite [OF fs i i])
    then show "\<exists>j<N. fgt (build_adjacency impl fs ! i ! j) (Num 0)" using i by blast
  qed
qed



section \<open>Finite values through the normalisation layers\<close>

lemma fmean_finite:
  assumes "list_all is_num xs" and "xs \<noteq> []"
  shows "fmean xs = Num (sum_list (map the_num xs) / real (length xs))"
  using assms by (simp add: fmean_def fsum_finite)

lemma fvar_finite:
  assumes fin: "list_all is_num xs" and ne: "xs \<noteq> []"
  shows "\<exists>r. fvar xs = Num r \<and> 0 \<le> r"
proof -
  obtain m where m: "fmean xs = Num m" using fmean_finite [OF fin ne] by blast
  let ?ds = "map (\<lambda>a. fmul (fsub a (Num m)) (fsub a (Num m))) xs"
  have "?ds = map Num (map (\<lambda>a. (the_num a - m) * (the_num a - m)) xs)"
    using fin by (induction xs) (auto simp: is_num_iff fsub_def)
  then have ds: "?ds = map Num (map (\<lambda>a. (the_num a - m) * (the_num a - m)) xs)" .
  have len: "length ?ds = length xs" by simp
  have "fmean ?ds = fdiv (fsum ?ds) (Num (real (length xs)))" by (simp add: fmean_def)
  also have "fsum ?ds = Num (sum_list (map (\<lambda>a. (the_num a - m) * (the_num a - m)) xs))"
    unfolding ds by (rule fsum_map_Num)
  finally have "fmean ?ds = Num (sum_list (map (\<lambda>a. (the_num a - m) * (the_num a - m)) xs)
                                  / real (length xs))"
    using ne by simp
  moreover have "0 \<le> sum_list (map (\<lambda>a. (the_num a - m) * (the_num a - m)) xs)"
    by (rule sum_list_nonneg) auto
  ultimately show ?thesis by (simp add: fvar_def m Let_def)
qed

lemma normalise_elem_finite:
  assumes "0 < eps" and "is_num mean" and "var = Num r" and "0 \<le> r"
    and "is_num w" and "is_num b" and "is_num a"
  shows "is_num (normalise_elem eps mean var w b a)"
proof -
  have "0 < r + eps" using assms(1,4) by simp
  then have "sqrt (r + eps) \<noteq> 0" "\<not> r + eps < 0" by simp_all
  then show ?thesis using assms(2,3,5,6,7)
    by (auto simp: normalise_elem_def is_num_iff fsub_def)
qed

lemma column_finite:
  assumes "finite_mat B n x" and "c < n"
  shows "list_all is_num (column x c)" and "length (column x c) = B"
  using assms by (auto simp: column_def finite_mat_def list_all_iff list_all_length)

lemma BatchNorm1d_forward_finite:
  assumes wf: "bn_wf B n bn" and x: "finite_mat B n x"
  shows "\<exists>y. fst (BatchNorm1d_forward bn x) = Inr y \<and> finite_mat B n y"
proof -
  have len: "length x = B" using x by (auto dest: finite_matD)
  have eps: "0 < bn_eps bn" and lw: "length (bn_weight bn) = n"
    using wf by (simp_all add: bn_wf_def)
  have w: "\<And>c. c < n \<Longrightarrow> is_num (bn_weight bn ! c)"
    and b: "\<And>c. c < n \<Longrightarrow> is_num (bn_bias bn ! c)"
    and rm: "\<And>c. c < n \<Longrightarrow> is_num (running_mean bn ! c)"
    and rv: "\<And>c. c < n \<Longrightarrow> \<exists>r. running_var bn ! c = Num r \<and> 0 \<le> r"
    using wf by (auto simp: bn_wf_def list_all_length is_num_iff)
  have xe: "\<And>i c. i < B \<Longrightarrow> c < n \<Longrightarrow> is_num (x ! i ! c)"
    using finite_matD(4) [OF x] by blast
  show ?thesis
  proof (cases "training bn")
    case False
    let ?y = "map (\<lambda>row. map (\<lambda>c.
                   normalise_elem (bn_eps bn) (running_mean bn ! c) (running_var bn ! c)
                     (bn_weight bn ! c) (bn_bias bn ! c) (row ! c)) [0..<n]) x"
    have "finite_mat B n ?y"
    proof (rule finite_matI)
      show "length ?y = B" using len by simp
    next
      fix i assume i: "i < B"
      have "\<And>c. c < n \<Longrightarrow> is_num (normalise_elem (bn_eps bn) (running_mean bn ! c)
                (running_var bn ! c) (bn_weight bn ! c) (bn_bias bn ! c) (x ! i ! c))"
        using rv normalise_elem_finite [OF eps rm _ _ w b xe [OF i]] by blast
      then show "length (?y ! i) = n \<and> list_all is_num (?y ! i)"
        using i len by (simp add: list_all_iff)
    qed
    then show ?thesis using False by (simp add: BatchNorm1d_forward_def Let_def lw)
  next
    case True
    then have B1: "B \<noteq> 1" using wf by (simp add: bn_wf_def)
    let ?means = "map (\<lambda>c. fmean (column x c)) [0..<n]"
    let ?vars = "map (\<lambda>c. fvar (column x c)) [0..<n]"
    let ?y = "map (\<lambda>row. map (\<lambda>c.
                   normalise_elem (bn_eps bn) (?means ! c) (?vars ! c)
                     (bn_weight bn ! c) (bn_bias bn ! c) (row ! c)) [0..<n]) x"
    have "finite_mat B n ?y"
    proof (rule finite_matI)
      show "length ?y = B" using len by simp
    next
      fix i assume i: "i < B"
      have ne: "\<And>c. c < n \<Longrightarrow> column x c \<noteq> []"
        using column_finite(2) [OF x] i by fastforce
      have m: "\<And>c. c < n \<Longrightarrow> is_num (fmean (column x c))"
        using fmean_finite [OF column_finite(1) [OF x] ne] by simp
      have v: "\<And>c. c < n \<Longrightarrow> \<exists>r. fvar (column x c) = Num r \<and> 0 \<le> r"
        using fvar_finite [OF column_finite(1) [OF x] ne] by simp
      have "\<And>c. c < n \<Longrightarrow> is_num (normalise_elem (bn_eps bn) (?means ! c)
                (?vars ! c) (bn_weight bn ! c) (bn_bias bn ! c) (x ! i ! c))"
      proof -
        fix c assume c: "c < n"
        from v [OF c] obtain r where r: "fvar (column x c) = Num r" "0 \<le> r" by blast
        have "is_num (normalise_elem (bn_eps bn) (fmean (column x c)) (fvar (column x c))
                (bn_weight bn ! c) (bn_bias bn ! c) (x ! i ! c))"
          by (rule normalise_elem_finite [OF eps m [OF c] r w [OF c] b [OF c] xe [OF i c]])
        then show "is_num (normalise_elem (bn_eps bn) (?means ! c)
                (?vars ! c) (bn_weight bn ! c) (bn_bias bn ! c) (x ! i ! c))"
          using c by simp
      qed
      then show "length (?y ! i) = n \<and> list_all is_num (?y ! i)"
        using i len by (simp add: list_all_iff)
    qed
    then show ?thesis using True B1 len
      by (simp add: BatchNorm1d_forward_def Let_def lw)
  qed
qed

lemma LayerNorm_forward_finite:
  assumes wf: "ln_wf n lnm" and x: "finite_mat B n x"
  shows "finite_mat B n (LayerNorm_forward lnm x)"
proof (rule finite_matI)
  show "length (LayerNorm_forward lnm x) = B"
    using x by (simp add: LayerNorm_forward_def finite_mat_def)
next
  fix i assume i: "i < B"
  have len: "length x = B" using x by (auto dest: finite_matD)
  have eps: "0 < ln_eps lnm" using wf by (simp add: ln_wf_def)
  have w: "\<And>c. c < n \<Longrightarrow> is_num (ln_weight lnm ! c)"
    and b: "\<And>c. c < n \<Longrightarrow> is_num (ln_bias lnm ! c)"
    using wf by (auto simp: ln_wf_def list_all_length)
  let ?row = "x ! i"
  have rl: "length ?row = n" and rf: "list_all is_num ?row"
    using finite_matD(2,3) [OF x i] by simp_all
  have "\<And>c. c < n \<Longrightarrow> is_num (normalise_elem (ln_eps lnm) (fmean ?row) (fvar ?row)
            (ln_weight lnm ! c) (ln_bias lnm ! c) (?row ! c))"
  proof -
    fix c assume c: "c < n"
    then have ne: "?row \<noteq> []" using rl by auto
    have m: "is_num (fmean ?row)" using fmean_finite [OF rf ne] by simp
    from fvar_finite [OF rf ne] obtain r where r: "fvar ?row = Num r" "0 \<le> r" by blast
    have a: "is_num (?row ! c)" using rf rl c by (simp add: list_all_length)
    show "is_num (normalise_elem (ln_eps lnm) (fmean ?row) (fvar ?row)
            (ln_weight lnm ! c) (ln_bias lnm ! c) (?row ! c))"
      by (rule normalise_elem_finite [OF eps m r w [OF c] b [OF c] a])
  qed
  then show "length (LayerNorm_forward lnm x ! i) = n
               \<and> list_all is_num (LayerNorm_forward lnm x ! i)"
    using i len rl by (simp add: LayerNorm_forward_def Let_def list_all_iff)
qed

lemma map_map_finite:
  assumes "\<And>v. is_num v \<Longrightarrow> is_num (f v)" and "finite_mat B n x"
  shows "finite_mat B n (map (map f) x)"
  using assms by (auto simp: finite_mat_def list_all_iff)

lemma relu_finite: "is_num v \<Longrightarrow> is_num (relu v)"
  by (cases v) (auto simp: relu_def)

lemma leaky_relu_finite: "is_num v \<Longrightarrow> is_num (leaky_relu a v)"
  by (cases v) (auto simp: leaky_relu_def)

lemma Dropout_forward_finite:
  assumes "finite_mat B n x"
  shows "finite_mat B n (Dropout_forward d keep x)"
proof (rule finite_matI)
  show "length (Dropout_forward d keep x) = B"
    using assms by (simp add: Dropout_forward_def finite_mat_def)
next
  fix i assume i: "i < B"
  have len: "length x = B" using assms by (auto dest: finite_matD)
  have "\<And>c. c < n \<Longrightarrow> is_num (x ! i ! c)" using finite_matD(4) [OF assms i] .
  then show "length (Dropout_forward d keep x ! i) = n
               \<and> list_all is_num (Dropout_forward d keep x ! i)"
    using i len finite_matD(2) [OF assms i]
    by (simp add: Dropout_forward_def list_all_iff F_dropout_cases)
qed

lemma F_normalize_finite:
  assumes "finite_mat B n x"
  shows "finite_mat B n (F_normalize x)"
proof (rule finite_matI)
  show "length (F_normalize x) = B" using assms by (simp add: F_normalize_def finite_mat_def)
next
  fix i assume i: "i < B"
  have len: "length x = B" using assms by (auto dest: finite_matD)
  have fin: "list_all is_num (x ! i)" and rl: "length (x ! i) = n"
    using finite_matD(2,3) [OF assms i] by simp_all
  have v: "map Num (map the_num (x ! i)) = x ! i" by (rule all_num_map_the_num [OF fin])
  have "F_normalize x ! i
          = map (\<lambda>a. fdiv a (fmax (norm2 (x ! i)) (Num (1 / 10 ^ 12)))) (x ! i)"
    using F_normalize_nth i len by simp
  also have "\<dots> = map Num (map (\<lambda>r. r / max (sqrt (ip (map the_num (x ! i))
                        (map the_num (x ! i)))) (1 / 10 ^ 12)) (map the_num (x ! i)))"
    using F_normalize_row_Num [of "map the_num (x ! i)"] by (simp only: v)
  finally show "length (F_normalize x ! i) = n \<and> list_all is_num (F_normalize x ! i)"
    using rl by (simp add: list_all_iff)
qed

section \<open>Finite values through the classifier and the whole model\<close>

lemma nonzero_bounds:
  assumes "finite_mat B B adj" and "(i, j) \<in> set (nonzero adj)"
  shows "i < B \<and> j < B"
  using assms by (auto simp: nonzero_def finite_mat_def list_all_length)

lemma gcn_edges_bounds:
  assumes "\<forall>(r, c)\<in>set ei. r < N \<and> c < N" and "(r, c) \<in> set (gcn_edges N ei)"
  shows "r < N \<and> c < N"
  using assms by (auto simp: gcn_edges_def)

lemma GCNConv_forward_finite:
  assumes w: "finite_mat k n (lin_weight g)" and bl: "length (conv_bias g) = k"
    and bf: "list_all is_num (conv_bias g)" and x: "finite_mat B n x"
    and ei: "\<forall>(r, c)\<in>set ei. r < B \<and> c < B"
  shows "finite_mat B k (GCNConv_forward g x ei)"
proof (rule finite_matI)
  have len: "length x = B" using x by (auto dest: finite_matD)
  show "length (GCNConv_forward g x ei) = B" using len by (simp add: GCNConv_forward_def Let_def)
  fix i assume i: "i < B"
  let ?lin = "\<lparr> weight = lin_weight g, bias = None \<rparr>"
  let ?xl = "map (linear_apply ?lin) x"
  let ?es = "gcn_edges B ei"
  have lw: "linear_wf n k ?lin" using w by (simp add: linear_wf_def)
  have kk: "length (lin_weight g) = k" using w by (auto dest: finite_matD)
  have xl: "\<And>r f. r < B \<Longrightarrow> f < k \<Longrightarrow> is_num (?xl ! r ! f)"
  proof -
    fix r f assume r: "r < B" and f: "f < k"
    have "list_all is_num (linear_apply ?lin (x ! r))"
      by (rule linear_apply_finite [OF lw finite_matD(3) [OF x r]])
    moreover have "length (linear_apply ?lin (x ! r)) = k" by (rule linear_apply_length [OF lw])
    ultimately show "is_num (?xl ! r ! f)" using r f len by (simp add: list_all_length)
  qed
  let ?agg = "map (\<lambda>f. fsum (map (\<lambda>(r, c).
                     fmul (Num (deg_inv_sqrt ?es r * deg_inv_sqrt ?es c)) (?xl ! r ! f))
                   (filter (\<lambda>(r, c). c = i) ?es))) [0..<k]"
  have "\<And>f. f < k \<Longrightarrow> is_num (?agg ! f)"
  proof -
    fix f assume f: "f < k"
    have "list_all is_num (map (\<lambda>(r, c).
                     fmul (Num (deg_inv_sqrt ?es r * deg_inv_sqrt ?es c)) (?xl ! r ! f))
                   (filter (\<lambda>(r, c). c = i) ?es))"
      using gcn_edges_bounds [OF ei] xl f
      by (auto simp: list_all_iff intro!: is_num_fmul)
    then show "is_num (?agg ! f)" using f by (simp add: is_num_fsum)
  qed
  then have agg: "list_all is_num ?agg" by (simp add: list_all_length)
  have "list_all is_num (map2 fadd ?agg (conv_bias g))"
    by (rule list_all_map2_num [OF is_num_fadd agg bf])
  moreover have "length (map2 fadd ?agg (conv_bias g)) = k" using bl by simp
  moreover have "GCNConv_forward g x ei ! i = map2 fadd ?agg (conv_bias g)"
    using i len by (simp add: GCNConv_forward_def Let_def kk)
  ultimately show "length (GCNConv_forward g x ei ! i) = k
                     \<and> list_all is_num (GCNConv_forward g x ei ! i)" by simp
qed

lemma run_gcn_layers_finite:
  assumes ei: "\<forall>(r, c)\<in>set ei. r < B \<and> c < B"
  shows "gcn_wf B n ls \<Longrightarrow> finite_mat B n x \<Longrightarrow>
         \<exists>y. fst (run_gcn_layers ls x ei) = Inr y \<and> finite_mat B (gcn_out n ls) y"
proof (induction ls arbitrary: n x)
  case Nil
  then show ?case by simp
next
  case (Cons l ls)
  show ?case
  proof (cases l)
    case (GCNConv g)
    let ?k = "length (lin_weight g)"
    from Cons.prems(1) GCNConv have w: "finite_mat ?k n (lin_weight g)"
      and bl: "length (conv_bias g) = ?k" and bf: "list_all is_num (conv_bias g)"
      and rest: "gcn_wf B ?k ls" by simp_all
    have "finite_mat B ?k (GCNConv_forward g x ei)"
      by (rule GCNConv_forward_finite [OF w bl bf Cons.prems(2) ei])
    from Cons.IH [OF rest this] show ?thesis using GCNConv
      by (auto split: prod.splits)
  next
    case ReLU
    from Cons.prems(1) ReLU have rest: "gcn_wf B n ls" by simp
    have "finite_mat B n (map (map relu) x)"
      by (rule map_map_finite [OF relu_finite Cons.prems(2)])
    from Cons.IH [OF rest this] show ?thesis using ReLU
      by (auto split: prod.splits)
  next
    case (BatchNorm1d bn)
    from Cons.prems(1) BatchNorm1d have bw: "bn_wf B n bn" and rest: "gcn_wf B n ls"
      by simp_all
    from BatchNorm1d_forward_finite [OF bw Cons.prems(2)] obtain y where
      y: "fst (BatchNorm1d_forward bn x) = Inr y" "finite_mat B n y" by blast
    from Cons.IH [OF rest y(2)] show ?thesis using BatchNorm1d y(1)
      by (auto split: prod.splits sum.splits)
  qed
qed

lemma fsigmoid_range: "is_num v \<Longrightarrow> \<exists>r. fsigmoid v = Num r \<and> 0 \<le> r \<and> r \<le> 1"
proof -
  assume "is_num v"
  then obtain a where a: "v = Num a" by (auto simp: is_num_iff)
  have p: "0 < 1 + exp (- a)" by (simp add: add_pos_pos)
  have "1 / (1 + exp (- a)) \<le> 1" using p by (simp add: divide_le_eq)
  moreover have "0 \<le> 1 / (1 + exp (- a))" using p by simp
  ultimately have "0 \<le> 1 / (1 + exp (- a)) \<and> 1 / (1 + exp (- a)) \<le> 1" by blast
  then show ?thesis by (simp add: a)
qed

lemma GCNClassifier_forward_range:
  assumes ei: "\<forall>(r, c)\<in>set ei. r < B \<and> c < B"
    and wf: "gcn_wf B n (gcn_layers cl)" and x: "finite_mat B n x"
  shows "\<exists>out. fst (GCNClassifier_forward cl x ei) = Inr out \<and> length out = B
           \<and> (\<forall>i<B. length (out ! i) = gcn_out n (gcn_layers cl)
                 \<and> list_all (\<lambda>v. \<exists>r. v = Num r \<and> 0 \<le> r \<and> r \<le> 1) (out ! i))"
proof -
  from run_gcn_layers_finite [OF ei wf x] obtain y where
    y: "fst (run_gcn_layers (gcn_layers cl) x ei) = Inr y"
       "finite_mat B (gcn_out n (gcn_layers cl)) y" by blast
  have fw: "fst (GCNClassifier_forward cl x ei) = Inr (map (map fsigmoid) y)"
    using y(1) by (auto simp: GCNClassifier_forward_def split: prod.splits sum.splits)
  have len: "length y = B" using y(2) by (auto dest: finite_matD)
  have "\<And>i. i < B \<Longrightarrow> length (map (map fsigmoid) y ! i) = gcn_out n (gcn_layers cl)
           \<and> list_all (\<lambda>v. \<exists>r. v = Num r \<and> 0 \<le> r \<and> r \<le> 1) (map (map fsigmoid) y ! i)"
    using finite_matD(2,3) [OF y(2)] len fsigmoid_range
    by (auto simp: list_all_iff)
  with fw len show ?thesis by auto
qed

lemma extractor_fuse_finite:
  assumes lw: "linear_wf c d (fuse_linear fe)" and bw: "bn_wf B d (fuse_bn fe)"
    and fused: "extractor_fused lib fe x = Inr t" and pooled: "finite_mat B c (pool_flatten t)"
  shows "\<exists>y. fst (extractor_fuse lib fe x) = Inr y \<and> finite_mat B d y"
proof -
  let ?lin = "map (linear_apply (fuse_linear fe)) (pool_flatten t)"
  have "finite_mat B d ?lin"
  proof (rule finite_matI)
    show "length ?lin = B" using pooled by (simp add: finite_mat_def)
  next
    fix i assume i: "i < B"
    have len: "length (pool_flatten t) = B" using pooled by (auto dest: finite_matD)
    show "length (?lin ! i) = d \<and> list_all is_num (?lin ! i)"
      using i len linear_apply_length [OF lw]
        linear_apply_finite [OF lw finite_matD(3) [OF pooled i]] by simp
  qed
  from BatchNorm1d_forward_finite [OF bw this] obtain y where
    y: "fst (BatchNorm1d_forward (fuse_bn fe) ?lin) = Inr y" "finite_mat B d y" by blast
  have "finite_mat B d (map (map relu) y)" by (rule map_map_finite [OF relu_finite y(2)])
  moreover have "fst (extractor_fuse lib fe x) = Inr (map (map relu) y)"
    using y(1) by (auto simp: extractor_fuse_def fused Let_def split: prod.splits sum.splits)
  ultimately show ?thesis by blast
qed


lemma nonzero_bounds_all:
  assumes "finite_mat B B adj"
  shows "\<forall>(r, c)\<in>set (nonzero adj). r < B \<and> c < B"
  using nonzero_bounds [OF assms] by auto

section \<open>Output of the full model\<close>

lemma example_model_wf: "full_model_wf 1 1 1 2 example_model"
  using example_layer_wf
  by (simp add: full_model_wf_def example_model_def example_extractor_def linear_wf_def
      finite_mat_def bn_wf_def ln_wf_def BatchNorm1d_init_def LayerNorm_init_def
      example_layer_def)

lemma example_model_fused:
  "extractor_fused stub_lib (cnn example_model) [[[[Num 1]]]] = Inr [[[[Num 1]]]]"
  by (simp add: extractor_fused_def example_model_def example_extractor_def stub_resnet_def
      stub_lib_def)

lemma FullModel_forward_range:
  assumes wf: "full_model_wf B c d C m"
    and fused: "extractor_fused lib (cnn m) x_img = Inr t"
    and pooled: "finite_mat B c (pool_flatten t)"
  shows "\<exists>out. fst (FullModel_forward lib m rng x_img) = Inr out \<and> length out = B
           \<and> (\<forall>i<B. length (out ! i) = C
                 \<and> list_all (\<lambda>v. \<exists>r. v = Num r \<and> 0 \<le> r \<and> r \<le> 1) (out ! i))"
proof -
  let ?g_out = "gat_stack_out d (layers (gat m))"
  have lw: "linear_wf c d (fuse_linear (cnn m))" and bw: "bn_wf B d (fuse_bn (cnn m))"
    and gw: "gat_stack_wf d (layers (gat m))" and nw: "ln_wf ?g_out (gat_norm m)"
    and cw: "gcn_wf B ?g_out (gcn_layers (gcn m))"
    and co: "gcn_out ?g_out (gcn_layers (gcn m)) = C"
    using wf by (simp_all add: full_model_wf_def)
  from extractor_fuse_finite [OF lw bw fused pooled] obtain y where
    y: "fst (extractor_fuse lib (cnn m) x_img) = Inr y" "finite_mat B d y" by blast
  then obtain c' where c': "extractor_fuse lib (cnn m) x_img = (Inr y, c')"
    by (cases "extractor_fuse lib (cnn m) x_img") auto
  have ms: "MultiScaleFeatureExtractor_forward lib (cnn m) x_img = (Inr (F_normalize y), c')"
    by (simp add: MultiScaleFeatureExtractor_forward_def c')
  let ?features = "Dropout_forward (fm_dropout m) (feat_keep rng) (F_normalize y)"
  let ?adj = "build_adjacency (cos_version lib) ?features"
  have ff: "finite_mat B d ?features"
    by (rule Dropout_forward_finite [OF F_normalize_finite [OF y(2)]])
  note adj = build_adjacency_finite_mat [OF ff, of "cos_version lib"]
  from forward_layers_finite [OF adj gw ff, of "gat_rngs rng" 0] obtain g where
    g: "StackedGAT_forward (gat m) (gat_rngs rng) ?features ?adj = Inr g"
       "finite_mat B ?g_out g"
    by (auto simp: StackedGAT_forward_def)
  let ?gat_out = "Dropout_forward (fm_dropout m) (out_keep rng)
                    (map (map (leaky_relu 0.2)) (LayerNorm_forward (gat_norm m) g))"
  have go: "finite_mat B ?g_out ?gat_out"
    by (intro Dropout_forward_finite map_map_finite leaky_relu_finite
        LayerNorm_forward_finite [OF nw g(2)])
  from GCNClassifier_forward_range [OF nonzero_bounds_all [OF adj(1)] cw go]
  obtain out where out: "fst (GCNClassifier_forward (gcn m) ?gat_out (nonzero ?adj)) = Inr out"
      "length out = B"
      "\<forall>i<B. length (out ! i) = gcn_out ?g_out (gcn_layers (gcn m))
           \<and> list_all (\<lambda>v. \<exists>r. v = Num r \<and> 0 \<le> r \<and> r \<le> 1) (out ! i)"
    by blast
  have "fst (FullModel_forward lib m rng x_img) = Inr out"
    using out(1) by (auto simp: FullModel_forward_def ms g(1) Let_def split: prod.splits)
  with out(2,3) co show ?thesis by auto
qed



section \<open>The single-image wrapper\<close>

lemma gcn_module_eval_in_eval: "gcn_module_in_eval (gcn_module_eval l)"
  by (cases l) auto



lemma extractor_eval_flags:
  "\<not> training ((c :: 'bs feature_extractor)\<lparr> training := False, fuse_bn := b \<rparr>)"
  "fuse_bn (c\<lparr> training := False, fuse_bn := b \<rparr>) = b"
  by (cases c; simp)+

lemma FullModel_eval_in_eval: "in_eval_mode (FullModel_eval m)"
  by (cases m) (simp add: in_eval_mode_def FullModel_eval_def list_all_iff
      gcn_module_eval_in_eval extractor_eval_flags)

lemma gat_layer_eval_id: "\<not> training (l :: gat_layer) \<Longrightarrow> l\<lparr> training := False \<rparr> = l"
  by (cases l) auto

lemma gcn_module_eval_id: "gcn_module_in_eval l \<Longrightarrow> gcn_module_eval l = l"
  by (cases l) auto

lemma FullModel_eval_id: "in_eval_mode m \<Longrightarrow> FullModel_eval m = m"
proof -
  assume e: "in_eval_mode m"
  have a: "map (\<lambda>l. l\<lparr> training := False \<rparr>) (layers (gat m)) = layers (gat m)"
    using e by (intro map_idI) (auto simp: in_eval_mode_def list_all_iff gat_layer_eval_id)
  have b: "map gcn_module_eval (gcn_layers (gcn m)) = gcn_layers (gcn m)"
    using e by (intro map_idI) (auto simp: in_eval_mode_def list_all_iff gcn_module_eval_id)
  have c1: "(fuse_bn (cnn m))\<lparr> training := False \<rparr> = fuse_bn (cnn m)"
    using e by (cases "fuse_bn (cnn m)") (auto simp: in_eval_mode_def)
  have c2: "(cnn m)\<lparr> training := False \<rparr> = cnn m"
    using e by (cases "cnn m") (auto simp: in_eval_mode_def)
  have c3: "(gat m)\<lparr> training := False \<rparr> = gat m"
    using e by (cases "gat m") (auto simp: in_eval_mode_def)
  have c4: "(gcn m)\<lparr> training := False \<rparr> = gcn m"
    using e by (cases "gcn m") (auto simp: in_eval_mode_def)
  have c5: "(fm_dropout m)\<lparr> training := False \<rparr> = fm_dropout m"
    using e by (cases "fm_dropout m") (auto simp: in_eval_mode_def)
  have c6: "(gat_norm m)\<lparr> training := False \<rparr> = gat_norm m"
    using e by (cases "gat_norm m") (auto simp: in_eval_mode_def)
  have c7: "m\<lparr> training := False \<rparr> = m"
    using e by (cases m) (auto simp: in_eval_mode_def)
  show ?thesis
    by (simp add: FullModel_eval_def a b c1 c2 c3 c4 c5 c6 c7)
qed

lemma BatchNorm1d_forward_eval: "\<not> training bn \<Longrightarrow> snd (BatchNorm1d_forward bn x) = bn"
  by (simp add: BatchNorm1d_forward_def Let_def)

lemma BatchNorm1d_forward_evalD:
  "BatchNorm1d_forward bn x = (r, bn') \<Longrightarrow> \<not> training bn \<Longrightarrow> bn' = bn"
  using BatchNorm1d_forward_eval [of bn x] by simp

lemma extractor_fuse_eval:
  "\<not> training fe \<Longrightarrow> \<not> training (fuse_bn fe) \<Longrightarrow> snd (extractor_fuse lib fe x) = fe"
  by (auto simp: extractor_fuse_def Let_def split: sum.splits prod.splits
      dest!: BatchNorm1d_forward_evalD)

lemma MultiScaleFeatureExtractor_forward_eval:
  "\<not> training fe \<Longrightarrow> \<not> training (fuse_bn fe) \<Longrightarrow>
   snd (MultiScaleFeatureExtractor_forward lib fe x) = fe"
  using extractor_fuse_eval [of fe lib x]
  by (auto simp: MultiScaleFeatureExtractor_forward_def split: sum.splits prod.splits)

lemma Dropout_forward_eval:
  "\<not> training d \<Longrightarrow> Dropout_forward d keep x = Dropout_forward d keep' x"
  by (simp add: Dropout_forward_def F_dropout_def)

lemma WeightedMultiHeadGAT_forward_eval:
  "\<not> training l \<Longrightarrow>
   WeightedMultiHeadGAT_forward l rng x adj = WeightedMultiHeadGAT_forward l rng' x adj"
  by (simp add: WeightedMultiHeadGAT_forward_def gat_aggregate_def fuse_heads_def F_dropout_def
      Let_def split: sum.splits)

lemma forward_layers_eval:
  "list_all (\<lambda>l. \<not> training l) ls \<Longrightarrow>
   forward_layers ls rng k x adj = forward_layers ls rng' k' x adj"
proof (induction ls arbitrary: k k' x)
  case Nil
  then show ?case by simp
next
  case (Cons l ls)
  then have l: "\<not> training l" and rest: "list_all (\<lambda>l. \<not> training l) ls" by simp_all
  show ?case
    using WeightedMultiHeadGAT_forward_eval [OF l, of "rng k" x adj "rng' k'"]
      Cons.IH [OF rest, of "Suc k" _ "Suc k'"]
    by (simp split: sum.splits)
qed

lemma run_gcn_layers_eval:
  "list_all gcn_module_in_eval ls \<Longrightarrow> snd (run_gcn_layers ls x ei) = ls"
proof (induction ls arbitrary: x)
  case Nil
  then show ?case by simp
next
  case (Cons l ls)
  then have rest: "list_all gcn_module_in_eval ls" by simp
  show ?case
  proof (cases l)
    case (GCNConv g)
    then show ?thesis using Cons.IH [OF rest, of "GCNConv_forward g x ei"]
      by (auto split: prod.splits)
  next
    case ReLU
    then show ?thesis using Cons.IH [OF rest, of "map (map relu) x"]
      by (auto split: prod.splits)
  next
    case (BatchNorm1d bn)
    then have nt: "\<not> training bn" using Cons.prems by simp
    have ih: "\<And>y r ls'. run_gcn_layers ls y ei = (r, ls') \<Longrightarrow> ls' = ls"
      using Cons.IH [OF rest] by (metis snd_conv)
    show ?thesis using BatchNorm1d nt
      by (auto split: prod.splits sum.splits dest!: BatchNorm1d_forward_evalD ih)
  qed
qed

lemma GCNClassifier_forward_eval:
  "list_all gcn_module_in_eval (gcn_layers cl) \<Longrightarrow> snd (GCNClassifier_forward cl x ei) = cl"
  using run_gcn_layers_eval [of "gcn_layers cl" x ei]
  by (cases cl) (auto simp: GCNClassifier_forward_def split: prod.splits sum.splits)

lemma FullModel_forward_eval_state:
  assumes e: "in_eval_mode m"
  shows "snd (FullModel_forward lib m rng x) = m"
proof -
  have c: "snd (MultiScaleFeatureExtractor_forward lib (cnn m) x) = cnn m"
    using e by (intro MultiScaleFeatureExtractor_forward_eval) (auto simp: in_eval_mode_def)
  have g: "\<And>y ei. snd (GCNClassifier_forward (gcn m) y ei) = gcn m"
    using e by (intro GCNClassifier_forward_eval) (auto simp: in_eval_mode_def)
  have id1: "m\<lparr> cnn := cnn m \<rparr> = m" by simp
  have id2: "m\<lparr> cnn := cnn m, gcn := gcn m \<rparr> = m" by simp
  obtain r c' where ex: "MultiScaleFeatureExtractor_forward lib (cnn m) x = (r, c')"
    by (cases "MultiScaleFeatureExtractor_forward lib (cnn m) x") auto
  have c': "c' = cnn m" using c ex by simp
  show ?thesis
  proof (cases r)
    case (Inl err)
    then show ?thesis using ex c' id1 by (simp add: FullModel_forward_def)
  next
    case (Inr feats)
    let ?features = "Dropout_forward (fm_dropout m) (feat_keep rng) feats"
    let ?adj = "build_adjacency (cos_version lib) ?features"
    show ?thesis
    proof (cases "StackedGAT_forward (gat m) (gat_rngs rng) ?features ?adj")
      case (Inl err)
      then show ?thesis using ex c' id1 \<open>r = Inr feats\<close>
        by (simp add: FullModel_forward_def Let_def)
    next
      case (Inr gout)
      let ?gat_out = "Dropout_forward (fm_dropout m) (out_keep rng)
                        (map (map (leaky_relu 0.2)) (LayerNorm_forward (gat_norm m) gout))"
      obtain r2 gc' where gc: "GCNClassifier_forward (gcn m) ?gat_out (nonzero ?adj) = (r2, gc')"
        by (cases "GCNClassifier_forward (gcn m) ?gat_out (nonzero ?adj)") auto
      have gc': "gc' = gcn m" using g [of ?gat_out "nonzero ?adj"] gc by simp
      show ?thesis using ex c' gc gc' id2 Inr \<open>r = Inr feats\<close>
        by (simp add: FullModel_forward_def Let_def)
    qed
  qed
qed

lemma FullModel_forward_eval_result:
  assumes e: "in_eval_mode m"
  shows "fst (FullModel_forward lib m rng x) = fst (FullModel_forward lib m rng' x)"
proof -
  have d: "\<And>k k' y. Dropout_forward (fm_dropout m) k y = Dropout_forward (fm_dropout m) k' y"
    using e by (intro Dropout_forward_eval) (auto simp: in_eval_mode_def)
  have s: "\<And>y adj. StackedGAT_forward (gat m) (gat_rngs rng) y adj
                    = StackedGAT_forward (gat m) (gat_rngs rng') y adj"
    unfolding StackedGAT_forward_def
    using e by (intro forward_layers_eval) (auto simp: in_eval_mode_def)
  show ?thesis
    using d [of "feat_keep rng" _ "feat_keep rng'"] d [of "out_keep rng" _ "out_keep rng'"] s
    by (simp add: FullModel_forward_def Let_def split: prod.splits sum.splits)
qed


lemma FullModel_eval_idem: "FullModel_eval (FullModel_eval m) = FullModel_eval m"
  by (rule FullModel_eval_id [OF FullModel_eval_in_eval])

lemma pipeline_model_update:
  "model ((pl :: ('bs, 'img) image_graph_pipeline)\<lparr> model := m \<rparr>) = m"
  "preprocess (pl\<lparr> model := m \<rparr>) = preprocess pl"
  "pl\<lparr> model := m \<rparr>\<lparr> model := m \<rparr> = pl\<lparr> model := m \<rparr>"
  by (cases pl; simp)+

lemma ImageGraphPipeline_forward_cases:
  "ImageGraphPipeline_forward lib files ctx pl rng path =
     ((case files path of
         None \<Rightarrow> Inl FileNotFoundError
       | Some img \<Rightarrow>
           (case fst (FullModel_forward lib (FullModel_eval (model pl)) rng [preprocess pl img]) of
              Inl e \<Rightarrow> Inl e
            | Inr [] \<Rightarrow> Inl IndexError
            | Inr (row # _) \<Rightarrow> Inr \<lparr> data = row, requires_grad = False \<rparr>)),
      pl\<lparr> model := FullModel_eval (model pl) \<rparr>, ctx)"
proof (cases "files path")
  case None
  then show ?thesis by (simp add: ImageGraphPipeline_forward_def Let_def)
next
  case (Some img)
  let ?m = "FullModel_eval (model pl)"
  obtain r m' where fw: "FullModel_forward lib ?m rng [preprocess pl img] = (r, m')"
    by (cases "FullModel_forward lib ?m rng [preprocess pl img]") auto
  have "snd (FullModel_forward lib ?m rng [preprocess pl img]) = ?m"
    by (rule FullModel_forward_eval_state [OF FullModel_eval_in_eval])
  then have m': "m' = ?m" using fw by simp
  show ?thesis using Some fw m'
    by (simp add: ImageGraphPipeline_forward_def Let_def split: sum.splits list.splits)
qed

text \<open>
  C8.  A call of \<open>ImageGraphPipeline.forward\<close> leaves the wrapped model in evaluation
  mode (the model it was given with every \<open>training\<close> flag cleared, its parameters
  and running statistics unchanged), restores the gradient mode of the caller, and
  returns a tensor that is not tracked for gradients.  Its result does not depend on the
  random samples: the same call with other samples returns the same result, and so does
  a second call on the wrapper as the first call left it, which also leaves the wrapper
  unchanged.
\<close>

theorem pipeline_forward_inference_only:
  assumes "ImageGraphPipeline_forward lib files ctx pl rng path = (r1, pl1, ctx1)"
  shows "model pl1 = FullModel_eval (model pl) \<and> in_eval_mode (model pl1)
       \<and> ctx1 = ctx
       \<and> (\<forall>t. r1 = Inr t \<longrightarrow> \<not> requires_grad t)
       \<and> fst (ImageGraphPipeline_forward lib files ctx' pl rng' path) = r1
       \<and> ImageGraphPipeline_forward lib files ctx' pl1 rng' path = (r1, pl1, ctx')"
proof -
  let ?m = "FullModel_eval (model pl)"
  let ?res = "\<lambda>g. (case files path of
         None \<Rightarrow> Inl FileNotFoundError
       | Some img \<Rightarrow>
           (case fst (FullModel_forward lib ?m g [preprocess pl img]) of
              Inl e \<Rightarrow> Inl e
            | Inr [] \<Rightarrow> Inl IndexError
            | Inr (row # _) \<Rightarrow> Inr \<lparr> data = row, requires_grad = False \<rparr>))"
  from assms have r1: "r1 = ?res rng" and pl1: "pl1 = pl\<lparr> model := ?m \<rparr>" and c: "ctx1 = ctx"
    by (simp_all add: ImageGraphPipeline_forward_cases)
  have same: "?res rng' = ?res rng"
    using FullModel_forward_eval_result [OF FullModel_eval_in_eval, of lib "model pl" rng' _ rng]
    by (simp split: option.splits)
  have m1: "model pl1 = ?m" by (simp add: pl1 pipeline_model_update)
  have ev: "in_eval_mode (model pl1)" unfolding m1 by (rule FullModel_eval_in_eval)
  have ng: "\<forall>t. r1 = Inr t \<longrightarrow> \<not> requires_grad t"
    unfolding r1 by (auto split: option.splits sum.splits list.splits)
  have first: "fst (ImageGraphPipeline_forward lib files ctx' pl rng' path) = r1"
    by (simp only: ImageGraphPipeline_forward_cases fst_conv same r1)
  have "ImageGraphPipeline_forward lib files ctx' pl1 rng' path
          = (?res rng', pl1\<lparr> model := ?m \<rparr>, ctx')"
    by (simp only: ImageGraphPipeline_forward_cases [of lib files ctx' pl1] m1
        FullModel_eval_idem)
       (simp add: pl1 pipeline_model_update split: option.splits)
  then have second: "ImageGraphPipeline_forward lib files ctx' pl1 rng' path = (r1, pl1, ctx')"
    by (simp add: same r1 pl1 pipeline_model_update)
  from m1 ev c ng first second show ?thesis by blast
qed

lemma example_pipeline_eval: "FullModel_eval (model example_pipeline) = example_model"
  by (simp add: example_pipeline_def example_model_def FullModel_eval_def
      example_extractor_def example_layer_def BatchNorm1d_init_def LayerNorm_init_def)

theorem pipeline_forward_inference_only_witness:
  "\<exists>t pl1. ImageGraphPipeline_forward stub_lib [''img.png'' \<mapsto> ()]
               \<lparr> grad_enabled = True \<rparr> example_pipeline keep_everything ''img.png''
             = (Inr t, pl1, \<lparr> grad_enabled = True \<rparr>)
     \<and> length (data t) = 2 \<and> \<not> requires_grad t
     \<and> model pl1 = example_model \<and> in_eval_mode (model pl1)
     \<and> ImageGraphPipeline_forward stub_lib [''img.png'' \<mapsto> ()]
               \<lparr> grad_enabled = True \<rparr> pl1 drop_everything ''img.png''
             = (Inr t, pl1, \<lparr> grad_enabled = True \<rparr>)"
proof -
  let ?files = "[''img.png'' \<mapsto> ()]" and ?ctx = "\<lparr> grad_enabled = True \<rparr>"
  have p: "finite_mat 1 1 (pool_flatten [[[[Num 1]]]])"
    by (simp add: pool_flatten_def fmean_def fsum_def finite_mat_def)
  from FullModel_forward_range [OF example_model_wf example_model_fused p, of keep_everything]
  obtain out where out: "fst (FullModel_forward stub_lib example_model keep_everything
                                [[[[Num 1]]]]) = Inr out"
    and lo: "length out = 1" and row: "length (out ! 0) = 2"
    by auto
  from lo obtain r where o: "out = [r]" by (cases out) auto
  have lr: "length r = 2" using row o by simp
  have pre: "preprocess example_pipeline () = [[[Num 1]]]" by (simp add: example_pipeline_def)
  obtain pl1 where
    first: "ImageGraphPipeline_forward stub_lib ?files ?ctx example_pipeline keep_everything
              ''img.png'' = (Inr \<lparr> data = r, requires_grad = False \<rparr>, pl1, ?ctx)"
    by (simp add: ImageGraphPipeline_forward_cases example_pipeline_eval pre out o)
  from pipeline_forward_inference_only [OF first, of ?ctx drop_everything]
  have m: "model pl1 = FullModel_eval (model example_pipeline)"
    and ev: "in_eval_mode (model pl1)"
    and second: "ImageGraphPipeline_forward stub_lib ?files ?ctx pl1 drop_everything ''img.png''
           = (Inr \<lparr> data = r, requires_grad = False \<rparr>, pl1, ?ctx)"
    by blast+
  have "model pl1 = example_model" by (simp only: m example_pipeline_eval)
  with first lr ev second show ?thesis by auto
qed

end
